theory Spec2Isabelle
  imports Main "HOL-Library.Sublist" "HOL-Library.Char_ord" "HOL-Library.List_Lexorder"
begin

section \<open>JavaScript strings and arrays\<close>

text \<open>
  A JavaScript string is modelled as a \<^typ>\<open>string\<close>: the list of its characters, with a
  character outside ASCII written as the bytes of its UTF-8 encoding. The operations below agree
  with the JavaScript ones on ASCII text; \<open>trim\<close> strips every white space and line
  terminator of the language, in its UTF-8 encoding; \<open>toLowerCase\<close> treats the ASCII letters
  only.
\<close>

definition emdash :: string where
  "emdash = [CHR 0xE2, CHR 0x80, CHR 0x94]"

definition ellipsis :: string where
  "ellipsis = [CHR 0xE2, CHR 0x80, CHR 0xA6]"

definition middot :: string where
  "middot = [CHR 0xC2, CHR 0xB7]"

text \<open>\<open>s.replace(/c/g, rep)\<close> for a pattern of one literal character.\<close>

definition replace_all :: "char \<Rightarrow> string \<Rightarrow> string \<Rightarrow> string" where
  "replace_all c rep s = concat (map (\<lambda>d. if d = c then rep else [d]) s)"

text \<open>\<open>s.startsWith(p)\<close> is \<^const>\<open>prefix\<close>; \<open>s.includes(q)\<close> looks for \<open>q\<close> at every position.\<close>

fun str_includes :: "string \<Rightarrow> string \<Rightarrow> bool" where
  "str_includes [] q = (q = [])"
| "str_includes (c # cs) q = (prefix q (c # cs) \<or> str_includes cs q)"

text \<open>
  The characters \<open>s.trim()\<close> strips, as their UTF-8 encodings: the white space of the
  language (TAB, VT, FF, U+FEFF and the space separators U+0020, U+00A0, U+1680, U+2000 to
  U+200A, U+202F, U+205F, U+3000) and its line terminators (LF, CR, U+2028, U+2029).
\<close>

definition white_space :: "string list" where
  "white_space =
     [[CHR 0x09], [CHR 0x0A], [CHR 0x0B], [CHR 0x0C], [CHR 0x0D], [CHR 0x20],
      [CHR 0xC2, CHR 0xA0],
      [CHR 0xE1, CHR 0x9A, CHR 0x80],
      [CHR 0xE2, CHR 0x80, CHR 0x80], [CHR 0xE2, CHR 0x80, CHR 0x81],
      [CHR 0xE2, CHR 0x80, CHR 0x82], [CHR 0xE2, CHR 0x80, CHR 0x83],
      [CHR 0xE2, CHR 0x80, CHR 0x84], [CHR 0xE2, CHR 0x80, CHR 0x85],
      [CHR 0xE2, CHR 0x80, CHR 0x86], [CHR 0xE2, CHR 0x80, CHR 0x87],
      [CHR 0xE2, CHR 0x80, CHR 0x88], [CHR 0xE2, CHR 0x80, CHR 0x89],
      [CHR 0xE2, CHR 0x80, CHR 0x8A],
      [CHR 0xE2, CHR 0x80, CHR 0xA8], [CHR 0xE2, CHR 0x80, CHR 0xA9],
      [CHR 0xE2, CHR 0x80, CHR 0xAF],
      [CHR 0xE2, CHR 0x81, CHR 0x9F],
      [CHR 0xE3, CHR 0x80, CHR 0x80],
      [CHR 0xEF, CHR 0xBB, CHR 0xBF]]"

text \<open>
  \<open>strip_leading ws s\<close> removes from the start of \<open>s\<close> every leading occurrence of one of
  the encodings \<open>ws\<close>; \<open>trim\<close> strips the white space from the start, and from the end by
  stripping the reversed encodings from the reversed string.
\<close>

function strip_leading :: "string list \<Rightarrow> string \<Rightarrow> string" where
  "strip_leading ws s =
     (case find (\<lambda>w. w \<noteq> [] \<and> prefix w s) ws of
        None \<Rightarrow> s
      | Some w \<Rightarrow> strip_leading ws (drop (length w) s))"
  by pat_completeness auto
termination
  by (relation "measure (\<lambda>(ws, s). length s)") (auto simp: find_Some_iff prefix_def)

declare strip_leading.simps [simp del]

definition trim :: "string \<Rightarrow> string" where
  "trim s = rev (strip_leading (map rev white_space) (rev (strip_leading white_space s)))"

definition lower_char :: "char \<Rightarrow> char" where
  "lower_char c =
     (if CHR ''A'' \<le> c \<and> c \<le> CHR ''Z'' then char_of (of_char c + (32::nat)) else c)"

definition toLowerCase :: "string \<Rightarrow> string" where
  "toLowerCase s = map lower_char s"

text \<open>\<open>parts.join(sep)\<close>.\<close>

fun join :: "string \<Rightarrow> string list \<Rightarrow> string" where
  "join sep [] = []"
| "join sep [x] = x"
| "join sep (x # y # ys) = x @ sep @ join sep (y # ys)"

text \<open>
  \<open>s.split(sep)\<close> for a separator string: the pieces of \<open>s\<close> between the occurrences of
  \<open>sep\<close>, found from left to right; always at least one piece. With the empty separator the
  string is split into its characters.
\<close>

function split_from :: "string \<Rightarrow> string \<Rightarrow> string \<Rightarrow> string list" where
  "split_from sep acc [] = [rev acc]"
| "split_from sep acc (c # cs) =
     (if sep \<noteq> [] \<and> prefix sep (c # cs)
      then rev acc # split_from sep [] (drop (length sep) (c # cs))
      else split_from sep (c # acc) cs)"
  by pat_completeness auto
termination
  by (relation "measure (\<lambda>(sep, acc, s). length s)") auto

definition split_str :: "string \<Rightarrow> string \<Rightarrow> string list" where
  "split_str sep s = (if sep = [] then map (\<lambda>c. [c]) s else split_from sep [] s)"

text \<open>
  \<open>xs.slice(0, n)\<close> and \<open>xs.slice(-n)\<close> for an integer \<open>n\<close>: a negative end counts from
  the end of the array, and both are clamped to the array.
\<close>

definition slice_to :: "'a list \<Rightarrow> int \<Rightarrow> 'a list" where
  "slice_to xs n =
     (if n < 0 then take (nat (max (int (length xs) + n) 0)) xs else take (nat n) xs)"

definition slice_last :: "'a list \<Rightarrow> nat \<Rightarrow> 'a list" where
  "slice_last xs n = drop (length xs - n) xs"

text \<open>The decimal numeral of an integer, as \<open>String(n)\<close> and a template literal print it.\<close>

definition digit_char :: "nat \<Rightarrow> char" where
  "digit_char d = char_of (of_char CHR ''0'' + d)"

fun show_nat :: "nat \<Rightarrow> string" where
  "show_nat n = (if n < 10 then [digit_char n] else show_nat (n div 10) @ [digit_char (n mod 10)])"

declare show_nat.simps [simp del]

definition show_int :: "int \<Rightarrow> string" where
  "show_int i = (if i < 0 then CHR ''-'' # show_nat (nat (- i)) else show_nat (nat i))"

definition nl :: string where
  "nl = [CHR 0x0A]"

definition dq :: string where
  "dq = [CHR 0x22]"

text \<open>
  \<open>xs.sort(cmp)\<close>: the result of a comparator is a number, \<open>None\<close> standing for \<open>NaN\<close>, which
  the sort reads as \<open>0\<close>. The sort is stable; it is modelled as an insertion sort, which is what
  every stable sort computes when the comparator is consistent (otherwise the order is left to
  the implementation by the language).
\<close>

definition not_after :: "int option \<Rightarrow> bool" where
  "not_after v = (case v of None \<Rightarrow> True | Some n \<Rightarrow> n \<le> 0)"

fun insort_cmp :: "('a \<Rightarrow> 'a \<Rightarrow> int option) \<Rightarrow> 'a \<Rightarrow> 'a list \<Rightarrow> 'a list" where
  "insort_cmp cmp x [] = [x]"
| "insort_cmp cmp x (y # ys) =
     (if not_after (cmp x y) then x # y # ys else y # insort_cmp cmp x ys)"

fun sort_cmp :: "('a \<Rightarrow> 'a \<Rightarrow> int option) \<Rightarrow> 'a list \<Rightarrow> 'a list" where
  "sort_cmp cmp [] = []"
| "sort_cmp cmp (x # xs) = insort_cmp cmp x (sort_cmp cmp xs)"

text \<open>The difference \<open>a - b\<close> of two time values, \<open>NaN\<close> when one of them is.\<close>

definition num_sub :: "int option \<Rightarrow> int option \<Rightarrow> int option" where
  "num_sub a b = (case (a, b) of (Some x, Some y) \<Rightarrow> Some (x - y) | _ \<Rightarrow> None)"


section \<open>Values read from JSON\<close>

text \<open>
  A value of type \<open>any\<close> that came out of \<open>JSON.parse\<close>; \<open>undefined\<close> is \<^term>\<open>None\<close> of
  \<^typ>\<open>'a option\<close>. Numbers are the integers.
\<close>

datatype jsval =
    JNull
  | JBool bool
  | JNum int
  | JStr string
  | JArr "jsval list"
  | JObj "(string \<times> jsval) list"

text \<open>
  \<open>v?.k\<close> for the property names the scripts use, none of which is inherited by a string, a
  number, a boolean or an array. The last of two equal keys of an object wins.
\<close>

fun get_prop :: "jsval option \<Rightarrow> string \<Rightarrow> jsval option" where
  "get_prop (Some (JObj kvs)) k = map_of (rev kvs) k"
| "get_prop _ k = None"

text \<open>\<open>v?.[0]\<close>.\<close>

fun get_index0 :: "jsval option \<Rightarrow> jsval option" where
  "get_index0 (Some (JArr (x # xs))) = Some x"
| "get_index0 (Some (JStr (c # cs))) = Some (JStr [c])"
| "get_index0 (Some (JObj kvs)) = map_of (rev kvs) ''0''"
| "get_index0 _ = None"

fun truthy :: "jsval option \<Rightarrow> bool" where
  "truthy None = False"
| "truthy (Some JNull) = False"
| "truthy (Some (JBool b)) = b"
| "truthy (Some (JNum n)) = (n \<noteq> 0)"
| "truthy (Some (JStr s)) = (s \<noteq> [])"
| "truthy (Some (JArr xs)) = True"
| "truthy (Some (JObj kvs)) = True"

text \<open>\<open>a ?? b\<close>.\<close>

fun nullish :: "jsval option \<Rightarrow> bool" where
  "nullish None = True"
| "nullish (Some JNull) = True"
| "nullish _ = False"

text \<open>The string a template literal prints for a value.\<close>

fun to_String :: "jsval \<Rightarrow> string" where
  "to_String JNull = ''null''"
| "to_String (JBool b) = (if b then ''true'' else ''false'')"
| "to_String (JNum n) = show_int n"
| "to_String (JStr s) = s"
| "to_String (JArr xs) = join '','' (map (\<lambda>x. if x = JNull then [] else to_String x) xs)"
| "to_String (JObj kvs) = ''[object Object]''"

definition template :: "jsval option \<Rightarrow> string" where
  "template v = (case v of None \<Rightarrow> ''undefined'' | Some x \<Rightarrow> to_String x)"


section \<open>scripts/summarize-ai.mts\<close>

subsection \<open>The time window\<close>

text \<open>
  \<open>getTime s\<close> is \<open>new Date(s).getTime()\<close>, the milliseconds of the date the string denotes,
  \<open>None\<close> when it denotes none (\<open>NaN\<close>); \<open>now\<close> is \<open>Date.now()\<close>. A comparison with
  \<open>NaN\<close> is false. The argument is \<open>None\<close> for \<open>null\<close> and \<open>undefined\<close>.
\<close>

definition withinLastDays :: "(string \<Rightarrow> int option) \<Rightarrow> int \<Rightarrow> string option \<Rightarrow> int \<Rightarrow> bool" where
  "withinLastDays getTime now ts days =
     (case ts of
        None \<Rightarrow> False
      | Some s \<Rightarrow>
          if s = [] then False
          else (case getTime s of
                  None \<Rightarrow> False
                | Some dt \<Rightarrow> now - dt \<le> days * 24 * 60 * 60 * 1000))"

text \<open>
  The window as the specification words it: false for an absent timestamp, false for a
  timestamp strictly older than \<open>days\<close> days, true otherwise.
\<close>

definition strictly_older :: "(string \<Rightarrow> int option) \<Rightarrow> int \<Rightarrow> string \<Rightarrow> int \<Rightarrow> bool" where
  "strictly_older getTime now s days =
     (case getTime s of None \<Rightarrow> False | Some dt \<Rightarrow> dt < now - days * 86400000)"

definition withinLastDays_spec :: "(string \<Rightarrow> int option) \<Rightarrow> int \<Rightarrow> string option \<Rightarrow> int \<Rightarrow> bool" where
  "withinLastDays_spec getTime now ts days =
     (case ts of None \<Rightarrow> False | Some s \<Rightarrow> \<not> strictly_older getTime now s days)"

subsection \<open>The cache\<close>

record Repo =
  name :: string
  full_name :: string
  description :: "string option"
  stargazers_count :: int
  forks_count :: int
  language :: "string option"
  topics :: "string list option"
  html_url :: string
  homepage :: "string option"
  pushed_at :: "string option"
  updated_at :: "string option"

record RepoRef =
  ref_name :: string
  ref_url :: string

record Event =
  ev_id :: string
  ev_type :: string
  ev_created_at :: string
  ev_repo :: RepoRef
  payload :: "jsval option"

record PR =
  pr_id :: int
  pr_number :: int
  title :: string
  state :: string
  pr_html_url :: string
  repository_url :: "string option"
  pr_created_at :: string
  pr_updated_at :: string
  closed_at :: "string option"
  merged_at :: "string option"
  user_login :: "string option"

record Cache =
  fetchedAt :: string
  cache_user :: string
  repos :: "Repo list"
  events :: "Event list"
  prs :: "PR list"

subsection \<open>The data of the current window\<close>

text \<open>\<open>a || b\<close> on optional strings: the first that is present and not empty.\<close>

definition truthy_str :: "string option \<Rightarrow> bool" where
  "truthy_str s = (case s of None \<Rightarrow> False | Some t \<Rightarrow> t \<noteq> [])"

definition or_str :: "string option \<Rightarrow> string option \<Rightarrow> string option" where
  "or_str a b = (if truthy_str a then a else b)"

text \<open>\<open>new Date(r.pushed_at || r.updated_at || 0).getTime()\<close>.\<close>

definition repo_time :: "(string \<Rightarrow> int option) \<Rightarrow> Repo \<Rightarrow> int option" where
  "repo_time getTime r =
     (case or_str (pushed_at r) (updated_at r) of
        None \<Rightarrow> Some 0
      | Some s \<Rightarrow> if s = [] then Some 0 else getTime s)"

definition repo_cmp :: "(string \<Rightarrow> int option) \<Rightarrow> Repo \<Rightarrow> Repo \<Rightarrow> int option" where
  "repo_cmp getTime a b = num_sub (repo_time getTime b) (repo_time getTime a)"

definition recentRepos :: "(string \<Rightarrow> int option) \<Rightarrow> int \<Rightarrow> Cache \<Rightarrow> Repo list" where
  "recentRepos getTime now cache =
     slice_to
       (sort_cmp (repo_cmp getTime)
          (filter (\<lambda>r. withinLastDays getTime now (pushed_at r) 14
                        \<or> withinLastDays getTime now (updated_at r) 14)
             (repos cache)))
       20"

text \<open>
  \<open>merged_at\<close> is \<open>null\<close> or a string in the cache the collector writes; \<open>new Date(null)\<close>
  is the epoch.
\<close>

definition pr_time :: "(string \<Rightarrow> int option) \<Rightarrow> PR \<Rightarrow> int option" where
  "pr_time getTime p = (case merged_at p of None \<Rightarrow> Some 0 | Some s \<Rightarrow> getTime s)"

definition pr_cmp :: "(string \<Rightarrow> int option) \<Rightarrow> PR \<Rightarrow> PR \<Rightarrow> int option" where
  "pr_cmp getTime a b = num_sub (pr_time getTime b) (pr_time getTime a)"

definition mergedPRs :: "(string \<Rightarrow> int option) \<Rightarrow> int \<Rightarrow> Cache \<Rightarrow> PR list" where
  "mergedPRs getTime now cache =
     slice_to
       (sort_cmp (pr_cmp getTime)
          (filter (\<lambda>p. truthy_str (merged_at p) \<and> withinLastDays getTime now (merged_at p) 14)
             (prs cache)))
       50"

definition interesting_types :: "string list" where
  "interesting_types =
     [''PushEvent'', ''PullRequestEvent'', ''ReleaseEvent'', ''IssuesEvent'', ''CreateEvent'']"

definition interestingEvents :: "(string \<Rightarrow> int option) \<Rightarrow> int \<Rightarrow> Cache \<Rightarrow> Event list" where
  "interestingEvents getTime now cache =
     slice_to
       (filter (\<lambda>e. ev_type e \<in> set interesting_types)
          (filter (\<lambda>e. withinLastDays getTime now (Some (ev_created_at e)) 14) (events cache)))
       80"


subsection \<open>The heuristic summary\<close>

definition toRepoLink :: "string \<Rightarrow> string" where
  "toRepoLink full = ''https://github.com/'' @ full"

definition repoOfPR :: "PR \<Rightarrow> string" where
  "repoOfPR p =
     (case repository_url p of
        None \<Rightarrow> []
      | Some u \<Rightarrow>
          (let r = join ''/'' (slice_last (split_str ''/'' u) 2)
           in if r \<noteq> [] then r else []))"

definition pr_highlight :: "PR \<Rightarrow> string" where
  "pr_highlight p =
     (let repo = repoOfPR p
      in ''- **'' @ title p @ ''** '' @ emdash @ '' PR **#'' @ show_int (pr_number p)
         @ ''** merged em ['' @ repo @ '']('' @ toRepoLink repo @ ''). [Ver PR]('' @ pr_html_url p
         @ '').'')"

definition atualizacoes :: string where
  "atualizacoes = ''atualiza'' @ [CHR 0xC3, CHR 0xA7, CHR 0xC3, CHR 0xB5] @ ''es''"

definition repo_highlight :: "Repo \<Rightarrow> string" where
  "repo_highlight r =
     ''- **'' @ full_name r @ ''** '' @ emdash @ '' '' @ atualizacoes @ '' recentes''
     @ (case language r of None \<Rightarrow> [] | Some l \<Rightarrow> if l \<noteq> [] then '' em '' @ l else [])
     @ ''. [Repo]('' @ html_url r @ '')''
     @ (case homepage r of None \<Rightarrow> [] | Some h \<Rightarrow> if h \<noteq> [] then '' '' @ middot @ '' [Site]('' @ h @ '')'' else [])
     @ ''.''"

definition release_highlight :: "Event \<Rightarrow> string" where
  "release_highlight rel =
     ''- **Release** em ['' @ ref_name (ev_repo rel) @ '']('' @ toRepoLink (ref_name (ev_repo rel))
     @ '').''"

text \<open>The second loop: repositories are appended until \<open>maxHighlights\<close> bullets are there.\<close>

fun push_repos :: "int \<Rightarrow> string list \<Rightarrow> Repo list \<Rightarrow> string list" where
  "push_repos maxHighlights out [] = out"
| "push_repos maxHighlights out (r # rs) =
     (if int (length out) \<ge> maxHighlights then out
      else push_repos maxHighlights (out @ [repo_highlight r]) rs)"

definition highlights_of :: "int \<Rightarrow> PR list \<Rightarrow> Repo list \<Rightarrow> Event list \<Rightarrow> string list" where
  "highlights_of maxHighlights merged recent interesting =
     (let out1 = map pr_highlight (slice_to merged maxHighlights);
          out2 = push_repos maxHighlights out1 recent;
          out3 = (if int (length out2) < max 3 maxHighlights
                  then (case find (\<lambda>e. ev_type e = ''ReleaseEvent'') interesting of
                          None \<Rightarrow> out2
                        | Some rel \<Rightarrow> out2 @ [release_highlight rel])
                  else out2)
      in slice_to out3 (max 3 maxHighlights))"

text \<open>\<open>maxHighlights\<close> is the integer the command line gave (5 when it gave none).\<close>

definition buildHeuristicHighlights ::
  "(string \<Rightarrow> int option) \<Rightarrow> int \<Rightarrow> Cache \<Rightarrow> int \<Rightarrow> string list" where
  "buildHeuristicHighlights getTime now cache maxHighlights =
     highlights_of maxHighlights (mergedPRs getTime now cache) (recentRepos getTime now cache)
       (interestingEvents getTime now cache)"

text \<open>
  The buckets are a \<open>Map\<close> from repository name to lines: an association list in the
  order the keys were first set.
\<close>

type_synonym buckets = "(string \<times> string list) list"

definition bucket_get :: "buckets \<Rightarrow> string \<Rightarrow> string list" where
  "bucket_get b k = (case map_of b k of None \<Rightarrow> [] | Some arr \<Rightarrow> arr)"

fun bucket_set :: "buckets \<Rightarrow> string \<Rightarrow> string list \<Rightarrow> buckets" where
  "bucket_set [] k v = [(k, v)]"
| "bucket_set ((k', v') # b) k v = (if k' = k then (k, v) # b else (k', v') # bucket_set b k v)"

definition add :: "buckets \<Rightarrow> string \<Rightarrow> string \<Rightarrow> buckets" where
  "add b repo line = bucket_set b repo (bucket_get b repo @ [line])"

definition pr_line :: "PR \<Rightarrow> string" where
  "pr_line p =
     ''- PR **#'' @ show_int (pr_number p) @ ''** merged: '' @ title p @ '' '' @ emdash
     @ '' [link]('' @ pr_html_url p @ '')''"

definition add_pr :: "buckets \<Rightarrow> PR \<Rightarrow> buckets" where
  "add_pr b p = add b (repoOfPR p) (pr_line p)"

text \<open>\<open>x ?? 'n'\<close> and \<open>x || ''\<close> inside a template literal.\<close>

definition or_n :: "jsval option \<Rightarrow> string" where
  "or_n v = (if nullish v then ''n'' else template v)"

definition or_empty :: "jsval option \<Rightarrow> string" where
  "or_empty v = (if truthy v then template v else [])"

definition event_repo :: "Event \<Rightarrow> string" where
  "event_repo e = (if ref_name (ev_repo e) \<noteq> [] then ref_name (ev_repo e) else ''desconhecido'')"

definition push_line :: "Event \<Rightarrow> string" where
  "push_line e = ''- Push ('' @ or_n (get_prop (payload e) ''size'') @ '' commit[s])''"

definition issue_line :: "Event \<Rightarrow> string" where
  "issue_line e =
     ''- Issue: '' @ template (get_prop (payload e) ''action'') @ '' '' @ emdash @ '' #''
     @ template (get_prop (get_prop (payload e) ''issue'') ''number'')"

definition create_line :: "Event \<Rightarrow> string" where
  "create_line e =
     ''- Create: '' @ template (get_prop (payload e) ''ref_type'') @ '' ''
     @ or_empty (get_prop (payload e) ''ref'')"

definition release_line :: "Event \<Rightarrow> string" where
  "release_line e =
     ''- Release: '' @ or_empty (get_prop (get_prop (payload e) ''release'') ''tag_name'')"

definition pullrequest_line :: "Event \<Rightarrow> string" where
  "pullrequest_line e =
     ''- PR: '' @ template (get_prop (payload e) ''action'') @ '' '' @ emdash @ '' #''
     @ template (get_prop (payload e) ''number'')"

definition add_event :: "buckets \<Rightarrow> Event \<Rightarrow> buckets" where
  "add_event b e =
     (let repo = event_repo e;
          b1 = (if ev_type e = ''PushEvent'' then add b repo (push_line e) else b);
          b2 = (if ev_type e = ''IssuesEvent'' then add b1 repo (issue_line e) else b1);
          b3 = (if ev_type e = ''CreateEvent'' then add b2 repo (create_line e) else b2);
          b4 = (if ev_type e = ''ReleaseEvent'' then add b3 repo (release_line e) else b3);
          b5 = (if ev_type e = ''PullRequestEvent'' then add b4 repo (pullrequest_line e) else b4)
      in b5)"

definition placeholder :: string where
  "placeholder = ''_Sem mudan'' @ [CHR 0xC3, CHR 0xA7] @ ''as relevantes nesta semana._''"

definition emit :: "buckets \<Rightarrow> string list" where
  "emit b = concat (map (\<lambda>k. (''### '' @ k) # bucket_get b k @ [[]]) (sort (map fst b)))"

definition changelog_of :: "PR list \<Rightarrow> Event list \<Rightarrow> string" where
  "changelog_of merged interesting =
     (let b = foldl add_event (foldl add_pr [] merged) interesting;
          lines = emit b
      in join nl (if lines = [] then [placeholder] else lines))"

definition buildHeuristicChangelog :: "(string \<Rightarrow> int option) \<Rightarrow> int \<Rightarrow> Cache \<Rightarrow> string" where
  "buildHeuristicChangelog getTime now cache =
     changelog_of (mergedPRs getTime now cache) (interestingEvents getTime now cache)"


subsection \<open>The generative rewrite\<close>

text \<open>The environment variables the script reads; \<open>None\<close> for one that is not set.\<close>

record Env =
  OPENAI_API_KEY :: "string option"
  OPENROUTER_API_KEY :: "string option"
  AI_MODEL :: "string option"
  OPENAI_BASE_URL :: "string option"

definition env_or :: "string option \<Rightarrow> string \<Rightarrow> string" where
  "env_or v d = (case v of None \<Rightarrow> d | Some s \<Rightarrow> if s \<noteq> [] then s else d)"

datatype provider = OpenAI | OpenRouter | NoProvider

text \<open>
  The request sent to the chat completions endpoint. Its body also carries the constants
  \<open>temperature: 0.3\<close> and \<open>max_tokens: 900\<close>.
\<close>

record AiRequest =
  endpoint :: string
  authorization :: string
  req_model :: string
  system_content :: string
  user_content :: string

text \<open>
  What \<open>fetch\<close> gives: the promise rejects (a network error), or resolves with a response.
  \<open>res_text\<close> and \<open>res_json\<close> are what \<open>res.text()\<close> and \<open>res.json()\<close> resolve with,
  \<open>None\<close> when \<open>res.json()\<close> rejects because the body is not JSON.
\<close>

record Response =
  res_ok :: bool
  res_status :: int
  res_headers :: "(string \<times> string) list"
  res_text :: string
  res_json :: "jsval option"

datatype fetched = Rejected | Resolved Response

record Summary =
  source :: string
  highlights :: "string list"
  changelog :: string

definition sys_prompt :: string where
  "sys_prompt = join nl
     [''Voc'' @ [CHR 0xC3, CHR 0xAA] @ '' '' @ [CHR 0xC3, CHR 0xA9]
        @ '' uma IA que escreve resumos t'' @ [CHR 0xC3, CHR 0xA9] @ ''cnicos curtos e objetivos.'',
      ''Tarefa: com base nos dados do GitHub (PRs merged, pushes, releases) gere:'',
      ''1) HIGHLIGHTS (3'' @ [CHR 0xE2, CHR 0x80, CHR 0x93] @ ''5 bullets). Cada item: **t''
        @ [CHR 0xC3, CHR 0xAD] @ ''tulo curto** + 1 frase objetiva + link.'',
      ''2) CHANGELOG (bullets agrupados por reposit'' @ [CHR 0xC3, CHR 0xB3] @ ''rio).'',
      ''TOM: profissional, conciso, sem adjetivos exagerados.'',
      ''FORMATO DE SA'' @ [CHR 0xC3, CHR 0x8D] @ ''DA ESTRICTO (sem rodeios, sem ''
        @ [CHR 0x60, CHR 0x60, CHR 0x60] @ ''):'',
      ''===HIGHLIGHTS==='',
      ''- ...'',
      ''- ...'',
      ''===CHANGELOG==='',
      ''### owner/repo'',
      ''- ...'',
      ''### owner/another'',
      ''- ...'']"

definition user_prompt :: "string \<Rightarrow> string \<Rightarrow> string list \<Rightarrow> string \<Rightarrow> string" where
  "user_prompt weekStr ghUser highlightsDraft changelogDraft = join nl
     ([''Semana: '' @ weekStr @ ''. Usu'' @ [CHR 0xC3, CHR 0xA1] @ ''rio GitHub: '' @ ghUser @ ''.'',
       ''Amostra de dados (heur'' @ [CHR 0xC3, CHR 0xAD] @ ''stica pr'' @ [CHR 0xC3, CHR 0xA9]
         @ ''via):'',
       ''--- HIGHLIGHTS BASE ---'']
      @ highlightsDraft
      @ [''--- CHANGELOG BASE ---'', take 4000 changelogDraft])"

definition heuristic :: "string list \<Rightarrow> string \<Rightarrow> Summary" where
  "heuristic highlightsDraft changelogDraft =
     \<lparr>source = ''heuristic'', highlights = highlightsDraft, changelog = changelogDraft\<rparr>"

definition coalesce :: "jsval option \<Rightarrow> jsval option \<Rightarrow> jsval option" where
  "coalesce a b = (if nullish a then b else a)"

text \<open>
  \<open>json?.choices?.[0]?.message?.content ?? json?.choices?.[0]?.text ?? ''\<close>.
\<close>

definition reply_text :: "jsval \<Rightarrow> jsval option" where
  "reply_text json =
     (let choice = get_index0 (get_prop (Some json) ''choices'')
      in coalesce (coalesce (get_prop (get_prop choice ''message'') ''content'')
                            (get_prop choice ''text''))
                  (Some (JStr [])))"

text \<open>The parse of the reply; \<open>parts[0]\<close> always exists, \<open>parts[1]\<close> may not.\<close>

definition highs_of :: "string \<Rightarrow> string list" where
  "highs_of txt =
     (let parts = split_str ''===CHANGELOG==='' txt;
          highRaw = (case parts of
                       [] \<Rightarrow> []
                     | p0 # _ \<Rightarrow> (case rev (split_str ''===HIGHLIGHTS==='' p0) of
                                    [] \<Rightarrow> []
                                  | h # _ \<Rightarrow> h))
      in filter (prefix ''- '') (map trim (split_str nl highRaw)))"

definition chgRaw_of :: "string \<Rightarrow> string" where
  "chgRaw_of txt = (case split_str ''===CHANGELOG==='' txt of _ # p1 # _ \<Rightarrow> p1 | _ \<Rightarrow> [])"

definition parse_reply :: "int \<Rightarrow> string list \<Rightarrow> string \<Rightarrow> string \<Rightarrow> Summary" where
  "parse_reply maxHighlights highlightsDraft changelogDraft txt =
     (let highs = highs_of txt;
          chg = (if trim (chgRaw_of txt) \<noteq> [] then trim (chgRaw_of txt) else changelogDraft)
      in if highs = []
         then \<lparr>source = ''ai'', highlights = highlightsDraft, changelog = chg\<rparr>
         else \<lparr>source = ''ai'', highlights = slice_to highs (max 3 maxHighlights),
               changelog = chg\<rparr>)"

definition provider_of :: "Env \<Rightarrow> provider" where
  "provider_of env =
     (if env_or (OPENAI_API_KEY env) [] \<noteq> [] then OpenAI
      else if env_or (OPENROUTER_API_KEY env) [] \<noteq> [] then OpenRouter
      else NoProvider)"

definition ai_request :: "Env \<Rightarrow> string \<Rightarrow> string \<Rightarrow> string list \<Rightarrow> string \<Rightarrow> AiRequest" where
  "ai_request env weekStr ghUser highlightsDraft changelogDraft =
     \<lparr>endpoint =
        (if provider_of env = OpenAI
         then env_or (OPENAI_BASE_URL env) ''https://api.openai.com/v1/chat/completions''
         else ''https://openrouter.ai/api/v1/chat/completions''),
      authorization =
        (if provider_of env = OpenAI then ''Bearer '' @ env_or (OPENAI_API_KEY env) []
         else ''Bearer '' @ env_or (OPENROUTER_API_KEY env) []),
      req_model =
        env_or (AI_MODEL env)
          (if provider_of env = OpenAI then ''gpt-4o-mini'' else ''openrouter/auto''),
      system_content = sys_prompt,
      user_content = user_prompt weekStr ghUser highlightsDraft changelogDraft\<rparr>"

text \<open>
  The result is paired with the requests that were sent, in order. Everything after the call
  to \<open>fetch\<close> runs inside the \<open>try\<close>: a rejected \<open>fetch\<close>, a body that is not JSON and a
  reply text that is no string (its \<open>split\<close> is no function) all end in the \<open>catch\<close>.
\<close>

definition aiSummarize ::
  "Env \<Rightarrow> string \<Rightarrow> string \<Rightarrow> int \<Rightarrow> (AiRequest \<Rightarrow> fetched) \<Rightarrow> string list \<Rightarrow> string
     \<Rightarrow> Summary \<times> AiRequest list" where
  "aiSummarize env weekStr ghUser maxHighlights fetch highlightsDraft changelogDraft =
     (if provider_of env = NoProvider then (heuristic highlightsDraft changelogDraft, [])
      else
        (let req = ai_request env weekStr ghUser highlightsDraft changelogDraft
         in (case fetch req of
               Rejected \<Rightarrow> heuristic highlightsDraft changelogDraft
             | Resolved res \<Rightarrow>
                 if \<not> res_ok res then heuristic highlightsDraft changelogDraft
                 else (case res_json res of
                         None \<Rightarrow> heuristic highlightsDraft changelogDraft
                       | Some json \<Rightarrow>
                           if \<not> truthy (reply_text json)
                           then heuristic highlightsDraft changelogDraft
                           else (case reply_text json of
                                   Some (JStr txt) \<Rightarrow>
                                     parse_reply maxHighlights highlightsDraft changelogDraft txt
                                 | _ \<Rightarrow> heuristic highlightsDraft changelogDraft)),
             [req])))"

subsection \<open>The documents\<close>

definition front :: "string \<Rightarrow> string \<Rightarrow> string \<Rightarrow> string \<Rightarrow> string \<Rightarrow> string" where
  "front weekStr generatedAt src ghUser ttl = join nl
     [''---'',
      ''title: '' @ dq @ ttl @ dq,
      ''week: '' @ dq @ weekStr @ dq,
      ''generatedAt: '' @ dq @ generatedAt @ dq,
      ''source: '' @ dq @ src @ dq,
      ''author: '' @ dq @ ghUser @ dq,
      ''---'',
      []]"

text \<open>
  The run of the digest builder: the two documents, as (path, content), that it writes, or
  previews under \<open>--dry-run\<close>, and the requests it sent.
\<close>

record Digest =
  highlightsMD :: "string \<times> string"
  changelogMD :: "string \<times> string"
  sent :: "AiRequest list"

definition summarize_main ::
  "Env \<Rightarrow> (string \<Rightarrow> int option) \<Rightarrow> int \<Rightarrow> string \<Rightarrow> string \<Rightarrow> string \<Rightarrow> int
     \<Rightarrow> (AiRequest \<Rightarrow> fetched) \<Rightarrow> Cache \<Rightarrow> Digest" where
  "summarize_main env getTime now generatedAt weekStr ghUser maxHighlights fetch cache =
     (let baseHighlights = buildHeuristicHighlights getTime now cache maxHighlights;
          baseChangelog = buildHeuristicChangelog getTime now cache;
          (summary, reqs) =
            aiSummarize env weekStr ghUser maxHighlights fetch baseHighlights baseChangelog
      in \<lparr>highlightsMD =
            (''src/content/highlights/'' @ weekStr @ ''.md'',
             join nl (front weekStr generatedAt (source summary) ghUser
                        (''Destaques '' @ emdash @ '' Semana '' @ weekStr)
                      # highlights summary)),
          changelogMD =
            (''src/content/changelog/'' @ weekStr @ ''.md'',
             join nl [front weekStr generatedAt (source summary) ghUser
                        (''Changelog '' @ emdash @ '' Semana '' @ weekStr),
                      changelog summary]),
          sent = reqs\<rparr>)"


section \<open>scripts/fetch-github.mts\<close>

text \<open>
  The calls of the collector: four \<open>GET\<close>s of the REST API, with the page size they ask
  for, and the \<open>POST\<close> of the pinned-items query to the GraphQL endpoint.
\<close>

datatype GhRequest =
    GetUser string
  | GetRepos string int
  | GetEvents string int
  | SearchIssues string int
  | PostGraphQL string

datatype error =
    NoUsername
  | FetchFailed
  | RateLimit "int option" "int option" int
  | RangeError
  | HttpFailure int GhRequest string
  | SyntaxError
  | TypeError

record Rate =
  rate_limit :: "int option"
  rate_remaining :: "int option"
  rate_reset :: "int option"

text \<open>\<open>res.headers.get(k) || '0'\<close>, for a header list with lower-case names.\<close>

definition header_or0 :: "Response \<Rightarrow> string \<Rightarrow> string" where
  "header_or0 res k = (case map_of (res_headers res) k of None \<Rightarrow> ''0'' | Some v \<Rightarrow> if v \<noteq> [] then v else ''0'')"

text \<open>\<open>rem <= 0\<close> is false when \<open>rem\<close> is \<open>NaN\<close>.\<close>

definition le0 :: "int option \<Rightarrow> bool" where
  "le0 v = (case v of None \<Rightarrow> False | Some n \<Rightarrow> n \<le> 0)"

text \<open>
  \<open>new Date(reset * 1000).toISOString()\<close> throws a \<open>RangeError\<close> when the time value is
  \<open>NaN\<close> or beyond 8.64e15 milliseconds from the epoch; otherwise it prints that time, which
  the error of the model carries in milliseconds.
\<close>

definition reset_time :: "int option \<Rightarrow> int option" where
  "reset_time reset =
     (case reset of
        None \<Rightarrow> None
      | Some r \<Rightarrow> if \<bar>r * 1000\<bar> \<le> 8640000000000000 then Some (r * 1000) else None)"

text \<open>\<open>toNumber s\<close> is \<open>Number(s)\<close>, \<open>None\<close> for \<open>NaN\<close>.\<close>

definition ghGet ::
  "(string \<Rightarrow> int option) \<Rightarrow> (GhRequest \<Rightarrow> fetched) \<Rightarrow> GhRequest \<Rightarrow> error + (jsval \<times> Rate)" where
  "ghGet toNumber fetch url =
     (case fetch url of
        Rejected \<Rightarrow> Inl FetchFailed
      | Resolved res \<Rightarrow>
          (let limit = toNumber (header_or0 res ''x-ratelimit-limit'');
               rem = toNumber (header_or0 res ''x-ratelimit-remaining'');
               reset = toNumber (header_or0 res ''x-ratelimit-reset'')
           in if le0 rem
              then (case reset_time reset of
                      None \<Rightarrow> Inl RangeError
                    | Some t \<Rightarrow> Inl (RateLimit limit rem t))
              else if \<not> res_ok res then Inl (HttpFailure (res_status res) url (res_text res))
              else (case res_json res of
                      None \<Rightarrow> Inl SyntaxError
                    | Some json \<Rightarrow>
                        Inr (json, \<lparr>rate_limit = limit, rate_remaining = rem, rate_reset = reset\<rparr>))))"

text \<open>
  An object literal built from properties of \<open>r\<close>: a property whose value is \<open>undefined\<close>
  is left out, as it is when the cache is written. Reading a property of \<open>null\<close> throws.
\<close>

definition pick_as :: "(string \<times> string) list \<Rightarrow> jsval \<Rightarrow> (string \<times> jsval) list" where
  "pick_as ks r = List.map_filter (\<lambda>(k, k'). map_option (\<lambda>v. (k, v)) (get_prop (Some r) k')) ks"

definition pick :: "string list \<Rightarrow> jsval \<Rightarrow> (string \<times> jsval) list" where
  "pick ks r = pick_as (map (\<lambda>k. (k, k)) ks) r"

text \<open>\<open>v || null\<close>, and \<open>v ? { ...properties of v } : undefined\<close> as the value of \<open>k\<close>.\<close>

definition or_null :: "jsval option \<Rightarrow> jsval" where
  "or_null v = (case v of None \<Rightarrow> JNull | Some x \<Rightarrow> if truthy v then x else JNull)"

definition sub_object :: "string \<Rightarrow> string list \<Rightarrow> jsval \<Rightarrow> (string \<times> jsval) list" where
  "sub_object k ks r =
     (case get_prop (Some r) k of
        None \<Rightarrow> []
      | Some v \<Rightarrow> if truthy (Some v) then [(k, JObj (pick ks v))] else [])"

definition pickRepo :: "jsval \<Rightarrow> error + jsval" where
  "pickRepo r =
     (if r = JNull then Inl TypeError
      else Inr (JObj (pick [''id'', ''name'', ''full_name'', ''description'', ''stargazers_count'',
                            ''forks_count'', ''language'', ''topics'', ''html_url'', ''homepage'',
                            ''archived'', ''disabled'', ''pushed_at'', ''updated_at'', ''created_at''] r
                      @ sub_object ''owner'' [''login''] r
                      @ pick [''visibility''] r)))"

definition pickEvent :: "jsval \<Rightarrow> error + jsval" where
  "pickEvent e =
     (if e = JNull then Inl TypeError
      else Inr (JObj (pick [''id'', ''type'', ''created_at''] e
                      @ [(''repo'',
                          JObj (pick_as [(''name'', ''name'')]
                                  (case get_prop (Some e) ''repo'' of None \<Rightarrow> JNull | Some v \<Rightarrow> v)
                                @ [(''url'',
                                    JStr (''https://api.github.com/repos/''
                                          @ template (get_prop (get_prop (Some e) ''repo'') ''name'')))]))]
                      @ sub_object ''actor'' [''login'', ''display_login'', ''url''] e
                      @ pick [''payload''] e)))"

definition pickPR :: "jsval \<Rightarrow> error + jsval" where
  "pickPR it =
     (if it = JNull then Inl TypeError
      else Inr (JObj (pick [''id'', ''number'', ''title'', ''state'', ''html_url'', ''repository_url'',
                            ''created_at'', ''updated_at'', ''closed_at''] it
                      @ [(''merged_at'',
                          or_null (get_prop (get_prop (Some it) ''pull_request'') ''merged_at''))]
                      @ sub_object ''user'' [''login''] it)))"

text \<open>\<open>xs.map(f)\<close> for an \<open>f\<close> that may throw: the first error ends the loop.\<close>

fun map_throwing :: "('a \<Rightarrow> error + 'b) \<Rightarrow> 'a list \<Rightarrow> error + 'b list" where
  "map_throwing f [] = Inr []"
| "map_throwing f (x # xs) =
     (case f x of
        Inl e \<Rightarrow> Inl e
      | Inr y \<Rightarrow> (case map_throwing f xs of Inl e \<Rightarrow> Inl e | Inr ys \<Rightarrow> Inr (y # ys)))"

text \<open>
  \<open>(json as any[]).slice(0, limit).map(f)\<close>: anything but an array has no \<open>slice\<close> whose
  result has a \<open>map\<close>.
\<close>

definition slice_map :: "(jsval \<Rightarrow> error + jsval) \<Rightarrow> int \<Rightarrow> jsval \<Rightarrow> error + jsval list" where
  "slice_map f limit json =
     (case json of JArr xs \<Rightarrow> map_throwing f (slice_to xs limit) | _ \<Rightarrow> Inl TypeError)"

definition ghSearchPRs ::
  "(string \<Rightarrow> int option) \<Rightarrow> (GhRequest \<Rightarrow> fetched) \<Rightarrow> string \<Rightarrow> int
     \<Rightarrow> error + (jsval list \<times> Rate)" where
  "ghSearchPRs toNumber fetch author perPage =
     (case ghGet toNumber fetch (SearchIssues author (min 100 perPage)) of
        Inl e \<Rightarrow> Inl e
      | Inr (json, rate) \<Rightarrow>
          if json = JNull then Inl TypeError
          else (let items = get_prop (Some json) ''items''
                in case (case items of
                           None \<Rightarrow> Inr []
                         | Some v \<Rightarrow> if truthy items then slice_map pickPR perPage v else Inr []) of
                     Inl e \<Rightarrow> Inl e
                   | Inr mapped \<Rightarrow> Inr (mapped, rate)))"

definition pinned_of :: "jsval \<Rightarrow> error + jsval" where
  "pinned_of n =
     (if n = JNull then Inl TypeError
      else Inr (JObj (pick_as [(''name'', ''name''), (''description'', ''description''),
                               (''stargazers_count'', ''stargazerCount''),
                               (''forks_count'', ''forkCount'')] n
                      @ [(''primaryLanguage'',
                          or_null (get_prop (get_prop (Some n) ''primaryLanguage'') ''name''))]
                      @ pick [''url'', ''homepageUrl''] n)))"

text \<open>
  The optional query for the pinned repositories. It calls \<open>fetch\<close> itself, not \<open>ghGet\<close>;
  the rate limit it returns is the \<open>rateLimit\<close> object of the reply, as it came.
\<close>

definition fetchPinnedGraphQL ::
  "bool \<Rightarrow> (GhRequest \<Rightarrow> fetched) \<Rightarrow> string \<Rightarrow> error + (jsval list \<times> jsval option)" where
  "fetchPinnedGraphQL useGraphQL fetch author =
     (if \<not> useGraphQL then Inr ([], None)
      else (case fetch (PostGraphQL author) of
              Rejected \<Rightarrow> Inl FetchFailed
            | Resolved res \<Rightarrow>
                if \<not> res_ok res then Inr ([], None)
                else (case res_json res of
                        None \<Rightarrow> Inl SyntaxError
                      | Some data \<Rightarrow>
                          (let d = get_prop (Some data) ''data'';
                               nodes = get_prop (get_prop (get_prop d ''user'') ''pinnedItems'') ''nodes'';
                               rl = get_prop d ''rateLimit''
                           in case (case nodes of
                                      None \<Rightarrow> Inr []
                                    | Some (JArr ns) \<Rightarrow> map_throwing pinned_of ns
                                    | Some v \<Rightarrow> if truthy nodes then Inl TypeError else Inr []) of
                                Inl e \<Rightarrow> Inl e
                              | Inr pinned \<Rightarrow> Inr (pinned, if truthy rl then rl else None)))))"

record Collected =
  c_user :: string
  c_rate :: Rate
  c_repos :: "jsval list"
  c_events :: "jsval list"
  c_prs :: "jsval list"
  c_pinned :: "jsval list"

text \<open>
  The run: the calls are made one after the other, and the first error ends the run with a
  non-zero exit status. \<open>token\<close> and \<open>USE_GRAPHQL\<close> are the environment's. Of the cache
  that is written the model keeps the user, the rate (that of the repositories call, which is
  always there) and the four lists.
\<close>

definition fetch_main ::
  "(string \<Rightarrow> int option) \<Rightarrow> (GhRequest \<Rightarrow> fetched) \<Rightarrow> string \<Rightarrow> string option \<Rightarrow> string
     \<Rightarrow> int \<Rightarrow> error + Collected" where
  "fetch_main toNumber fetch token USE_GRAPHQL username limit =
     (if username = [] then Inl NoUsername else
      case ghGet toNumber fetch (GetUser username) of
        Inl e \<Rightarrow> Inl e
      | Inr (ujson, urate) \<Rightarrow>
          if ujson = JNull then Inl TypeError
          else
     (case ghGet toNumber fetch (GetRepos username (min limit 100)) of
        Inl e \<Rightarrow> Inl e
      | Inr (rjson, rrate) \<Rightarrow>
     (case slice_map pickRepo limit rjson of
        Inl e \<Rightarrow> Inl e
      | Inr rs \<Rightarrow>
     (case ghGet toNumber fetch (GetEvents username (min limit 100)) of
        Inl e \<Rightarrow> Inl e
      | Inr (ejson, erate) \<Rightarrow>
     (case slice_map pickEvent limit ejson of
        Inl e \<Rightarrow> Inl e
      | Inr es \<Rightarrow>
     (case ghSearchPRs toNumber fetch username limit of
        Inl e \<Rightarrow> Inl e
      | Inr (ps, prate) \<Rightarrow>
     (case fetchPinnedGraphQL (token \<noteq> [] \<and> USE_GRAPHQL = Some ''1'') fetch username of
        Inl e \<Rightarrow> Inl e
      | Inr (pinned, grate) \<Rightarrow>
          Inr \<lparr>c_user = username, c_rate = rrate, c_repos = rs, c_events = es, c_prs = ps,
               c_pinned = pinned\<rparr>)))))))"


section \<open>The projects module\<close>

record Project =
  slug :: string
  proj_name :: string
  proj_description :: string
  tags :: "string list"
  proj_repo :: "string option"
  proj_homepage :: "string option"
  featured :: "bool option"
  cover :: "string option"
  updatedAt :: "string option"

text \<open>
  \<open>Date_parse s\<close> is \<open>Date.parse(s)\<close>, \<open>None\<close> for \<open>NaN\<close>; \<open>localeCompare a b\<close> is
  \<open>a.localeCompare(b)\<close>, negative when \<open>a\<close> sorts before \<open>b\<close>. \<open>da !== db\<close> holds when
  one of them is \<open>NaN\<close>.
\<close>

definition updated_time :: "(string \<Rightarrow> int option) \<Rightarrow> Project \<Rightarrow> int option" where
  "updated_time Date_parse p =
     (case updatedAt p of None \<Rightarrow> Some 0 | Some s \<Rightarrow> if s \<noteq> [] then Date_parse s else Some 0)"

definition featured_rank :: "Project \<Rightarrow> int" where
  "featured_rank p = (if featured p = Some True then 1 else 0)"

definition project_cmp ::
  "(string \<Rightarrow> int option) \<Rightarrow> (string \<Rightarrow> string \<Rightarrow> int) \<Rightarrow> Project \<Rightarrow> Project \<Rightarrow> int option" where
  "project_cmp Date_parse localeCompare a b =
     (let fa = featured_rank a; fb = featured_rank b
      in if fa \<noteq> fb then Some (fb - fa)
         else (let da = updated_time Date_parse a; db = updated_time Date_parse b
               in if da = None \<or> db = None \<or> da \<noteq> db then num_sub db da
                  else Some (localeCompare (proj_name a) (proj_name b))))"

definition PROJECTS ::
  "(string \<Rightarrow> int option) \<Rightarrow> (string \<Rightarrow> string \<Rightarrow> int) \<Rightarrow> Project list \<Rightarrow> Project list" where
  "PROJECTS Date_parse localeCompare projectsRaw =
     sort_cmp (project_cmp Date_parse localeCompare)
       (map (\<lambda>p. p\<lparr>tags := map toLowerCase (tags p)\<rparr>) projectsRaw)"

record FilterOptions =
  q :: "string option"
  opt_tags :: "string list option"

definition filterProjects :: "Project list \<Rightarrow> FilterOptions \<Rightarrow> Project list" where
  "filterProjects projects opts =
     (let q' = toLowerCase (trim (case q opts of None \<Rightarrow> [] | Some s \<Rightarrow> s));
          tags' = map toLowerCase (case opt_tags opts of None \<Rightarrow> [] | Some ts \<Rightarrow> ts)
      in filter
           (\<lambda>p. (q' = []
                  \<or> str_includes (toLowerCase (proj_name p)) q'
                  \<or> str_includes (toLowerCase (proj_description p)) q'
                  \<or> str_includes (toLowerCase (slug p)) q')
                 \<and> (tags' = [] \<or> list_all (\<lambda>t. t \<in> set (tags p)) tags'))
           projects)"


section \<open>src/lib/renderMarkdown.ts\<close>

definition escaped :: "string \<Rightarrow> string" where
  "escaped md =
     replace_all CHR ''>'' ''&gt;'' (replace_all CHR ''<'' ''&lt;'' (replace_all CHR ''&'' ''&amp;'' md))"

definition renderMarkdownString :: "string \<Rightarrow> string" where
  "renderMarkdownString md = ''<pre>'' @ escaped md @ ''</pre>''"


section \<open>Notions used in the statements\<close>

subsection \<open>The escape\<close>

text \<open>
  What the escape makes of one character: the three entities for \<open>&\<close>, \<open><\<close> and
  \<open>>\<close>, and every other character kept.
\<close>

definition esc_char :: "char \<Rightarrow> string" where
  "esc_char c =
     (if c = CHR ''&'' then ''&amp;''
      else if c = CHR ''<'' then ''&lt;''
      else if c = CHR ''>'' then ''&gt;''
      else [c])"

subsection \<open>The digest\<close>

text \<open>
  A merged pull request and a repository qualify when they pass the filter of the window. The
  highlights can show the merged pull requests and recent repositories the script keeps, and
  one release event when there is one among the events it keeps.
\<close>

definition pr_qualifies :: "(string \<Rightarrow> int option) \<Rightarrow> int \<Rightarrow> PR \<Rightarrow> bool" where
  "pr_qualifies getTime now p =
     (truthy_str (merged_at p) \<and> withinLastDays getTime now (merged_at p) 14)"

definition repo_qualifies :: "(string \<Rightarrow> int option) \<Rightarrow> int \<Rightarrow> Repo \<Rightarrow> bool" where
  "repo_qualifies getTime now r =
     (withinLastDays getTime now (pushed_at r) 14 \<or> withinLastDays getTime now (updated_at r) 14)"

definition release_count :: "Event list \<Rightarrow> nat" where
  "release_count evs =
     (case find (\<lambda>e. ev_type e = ''ReleaseEvent'') evs of None \<Rightarrow> 0 | Some rel \<Rightarrow> 1)"

definition available :: "(string \<Rightarrow> int option) \<Rightarrow> int \<Rightarrow> Cache \<Rightarrow> nat" where
  "available getTime now cache =
     length (mergedPRs getTime now cache) + length (recentRepos getTime now cache)
     + release_count (interestingEvents getTime now cache)"

text \<open>
  The changelog as the specification words it: one section for each distinct repository name
  that owns a bullet, the names sorted; in a section, after its header, the bullets of its
  merged pull requests and then those of its events, each in the order met, and an empty line;
  the placeholder line when there is no bullet at all.
\<close>

definition event_line :: "Event \<Rightarrow> string" where
  "event_line e =
     (if ev_type e = ''PushEvent'' then push_line e
      else if ev_type e = ''IssuesEvent'' then issue_line e
      else if ev_type e = ''CreateEvent'' then create_line e
      else if ev_type e = ''ReleaseEvent'' then release_line e
      else pullrequest_line e)"

definition section_names :: "PR list \<Rightarrow> Event list \<Rightarrow> string list" where
  "section_names merged interesting = sort (remdups (map repoOfPR merged @ map event_repo interesting))"

definition section_of :: "PR list \<Rightarrow> Event list \<Rightarrow> string \<Rightarrow> string list" where
  "section_of merged interesting k =
     (''### '' @ k)
     # map pr_line (filter (\<lambda>p. repoOfPR p = k) merged)
     @ map event_line (filter (\<lambda>e. event_repo e = k) interesting)
     @ [[]]"

definition changelog_spec :: "PR list \<Rightarrow> Event list \<Rightarrow> string" where
  "changelog_spec merged interesting =
     join nl (if merged = [] \<and> interesting = [] then [placeholder]
              else concat (map (section_of merged interesting) (section_names merged interesting)))"

text \<open>The buckets after a list of (repository, line) pairs has been added.\<close>

definition fill :: "buckets \<Rightarrow> (string \<times> string) list \<Rightarrow> buckets" where
  "fill b items = foldl (\<lambda>b (k, l). add b k l) b items"

subsection \<open>The rewrite, the collector and the sorts\<close>

text \<open>
  The generative call fails: \<open>fetch\<close> rejects, the status is not a success, or the body is
  empty (no JSON, or a reply whose text is empty).
\<close>

definition call_fails :: "fetched \<Rightarrow> bool" where
  "call_fails r =
     (case r of
        Rejected \<Rightarrow> True
      | Resolved res \<Rightarrow>
          \<not> res_ok res
          \<or> (case res_json res of None \<Rightarrow> True | Some json \<Rightarrow> \<not> truthy (reply_text json)))"

text \<open>
  The guard of \<open>ghGet\<close> on a response: the error it raises when the remaining-calls counter
  of the response is zero or less. A call is exhausted when its response trips the guard. The
  REST calls of a run are the four that go through \<open>ghGet\<close>.
\<close>

definition rate_guard :: "(string \<Rightarrow> int option) \<Rightarrow> Response \<Rightarrow> error option" where
  "rate_guard toNumber res =
     (if le0 (toNumber (header_or0 res ''x-ratelimit-remaining''))
      then Some (case reset_time (toNumber (header_or0 res ''x-ratelimit-reset'')) of
                   None \<Rightarrow> RangeError
                 | Some t \<Rightarrow> RateLimit (toNumber (header_or0 res ''x-ratelimit-limit''))
                              (toNumber (header_or0 res ''x-ratelimit-remaining'')) t)
      else None)"

definition exhausted :: "(string \<Rightarrow> int option) \<Rightarrow> (GhRequest \<Rightarrow> fetched) \<Rightarrow> GhRequest \<Rightarrow> bool" where
  "exhausted toNumber fetch url =
     (case fetch url of Rejected \<Rightarrow> False | Resolved res \<Rightarrow> rate_guard toNumber res \<noteq> None)"

definition rest_calls :: "string \<Rightarrow> int \<Rightarrow> GhRequest list" where
  "rest_calls username limit =
     [GetUser username, GetRepos username (min limit 100), GetEvents username (min limit 100),
      SearchIssues username (min 100 limit)]"

text \<open>
  A comparator orders \<open>a\<close> first when sorting the two records puts \<open>a\<close> before \<open>b\<close>,
  whichever came first.
\<close>

definition orders_first :: "('a \<Rightarrow> 'a \<Rightarrow> int option) \<Rightarrow> 'a \<Rightarrow> 'a \<Rightarrow> bool" where
  "orders_first cmp a b = (sort_cmp cmp [a, b] = [a, b] \<and> sort_cmp cmp [b, a] = [a, b])"

section \<open>Sample data\<close>

text \<open>
  A clock for the examples: the run is at 2025-01-15T00:00:00Z, and the time values of five
  timestamps are as \<open>Date\<close> gives them; no other string denotes a date here.
\<close>

definition sample_getTime :: "string \<Rightarrow> int option" where
  "sample_getTime = map_of
     [(''2025-01-13T00:00:00Z'', 1736726400000),
      (''2025-01-10T00:00:00Z'', 1736467200000),
      (''2025-01-01T00:00:00Z'', 1735689600000),
      (''2024-12-31T00:00:00Z'', 1735603200000),
      (''2024-06-01T00:00:00Z'', 1717200000000)]"

definition sample_now :: int where
  "sample_now = 1736899200000"

definition sample_pr :: "int \<Rightarrow> PR" where
  "sample_pr n =
     \<lparr>pr_id = 1000 + n, pr_number = n, title = ''Fix bug'', state = ''closed'',
      pr_html_url = ''https://github.com/me/proj/pull/'' @ show_int n,
      repository_url = Some ''https://api.github.com/repos/me/proj'',
      pr_created_at = ''2025-01-10T00:00:00Z'', pr_updated_at = ''2025-01-13T00:00:00Z'',
      closed_at = Some ''2025-01-13T00:00:00Z'', merged_at = Some ''2025-01-13T00:00:00Z'',
      user_login = Some ''me''\<rparr>"

definition sample_cache :: "PR list \<Rightarrow> Event list \<Rightarrow> Cache" where
  "sample_cache ps es =
     \<lparr>fetchedAt = ''2025-01-15T00:00:00Z'', cache_user = ''me'', repos = [], events = es,
      prs = ps\<rparr>"

definition sample_push :: "string \<Rightarrow> Event" where
  "sample_push nm =
     \<lparr>ev_id = ''1'', ev_type = ''PushEvent'', ev_created_at = ''2025-01-13T00:00:00Z'',
      ev_repo = \<lparr>ref_name = nm, ref_url = ''https://api.github.com/repos/'' @ nm\<rparr>,
      payload = None\<rparr>"

definition sample_env :: Env where
  "sample_env =
     \<lparr>OPENAI_API_KEY = Some ''sk-test'', OPENROUTER_API_KEY = None, AI_MODEL = None,
      OPENAI_BASE_URL = None\<rparr>"

definition sample_reply :: "string \<Rightarrow> fetched" where
  "sample_reply reply =
     Resolved \<lparr>res_ok = True, res_status = 200, res_headers = [], res_text = [],
               res_json = Some (JObj [(''choices'',
                                       JArr [JObj [(''message'', JObj [(''content'', JStr reply)])]])])\<rparr>"

definition sample_failure :: fetched where
  "sample_failure =
     Resolved \<lparr>res_ok = False, res_status = 500, res_headers = [], res_text = ''Internal error'',
               res_json = None\<rparr>"

text \<open>
  \<open>Number\<close> on a string of decimal digits, and a GitHub that answers every call, with 0
  remaining calls on the GraphQL reply; \<open>sample_exhausted\<close> reports 0 on the events call.
\<close>

definition sample_Number :: "string \<Rightarrow> int option" where
  "sample_Number s =
     (if s \<noteq> [] \<and> list_all (\<lambda>c. CHR ''0'' \<le> c \<and> c \<le> CHR ''9'') s
      then Some (foldl (\<lambda>a c. 10 * a + (int (of_char c) - 48)) 0 s)
      else None)"

definition sample_response :: "string \<Rightarrow> jsval \<Rightarrow> fetched" where
  "sample_response remaining json =
     Resolved \<lparr>res_ok = True, res_status = 200,
               res_headers = [(''x-ratelimit-limit'', ''60''), (''x-ratelimit-remaining'', remaining),
                              (''x-ratelimit-reset'', ''1736899200'')],
               res_text = [], res_json = Some json\<rparr>"

fun sample_github :: "GhRequest \<Rightarrow> fetched" where
  "sample_github (GetUser u) = sample_response ''59'' (JObj [(''login'', JStr u)])"
| "sample_github (GetRepos u n) = sample_response ''58'' (JArr [])"
| "sample_github (GetEvents u n) = sample_response ''57'' (JArr [])"
| "sample_github (SearchIssues u n) = sample_response ''56'' (JObj [(''items'', JArr [])])"
| "sample_github (PostGraphQL u) =
     sample_response ''0''
       (JObj [(''data'', JObj [(''user'', JObj [(''pinnedItems'', JObj [(''nodes'', JArr [])])]),
                               (''rateLimit'', JObj [(''limit'', JNum 5000), (''remaining'', JNum 0),
                                                     (''resetAt'', JStr ''2025-01-15T00:00:00Z'')])])])"

fun sample_exhausted :: "GhRequest \<Rightarrow> fetched" where
  "sample_exhausted (GetEvents u n) = sample_response ''0'' (JArr [])"
| "sample_exhausted r = sample_github r"

definition sample_collected :: Collected where
  "sample_collected =
     \<lparr>c_user = ''me'',
      c_rate = \<lparr>rate_limit = Some 60, rate_remaining = Some 58, rate_reset = Some 1736899200\<rparr>,
      c_repos = [], c_events = [], c_prs = [], c_pinned = []\<rparr>"

text \<open>A comparison of names by code units, for the examples.\<close>

definition sample_localeCompare :: "string \<Rightarrow> string \<Rightarrow> int" where
  "sample_localeCompare a b = (if a < b then - 1 else if a = b then 0 else 1)"

definition sample_project :: "string \<Rightarrow> bool \<Rightarrow> string \<Rightarrow> Project" where
  "sample_project nm f upd =
     \<lparr>slug = nm, proj_name = nm, proj_description = ''A project'', tags = [''web''],
      proj_repo = None, proj_homepage = None, featured = Some f, cover = None,
      updatedAt = Some upd\<rparr>"

definition sample_repo :: "string \<Rightarrow> string \<Rightarrow> Repo" where
  "sample_repo full pushed =
     \<lparr>name = full, full_name = full, description = None, stargazers_count = 0, forks_count = 0,
      language = Some ''TypeScript'', topics = None, html_url = ''https://github.com/'' @ full,
      homepage = None, pushed_at = Some pushed, updated_at = None\<rparr>"

section \<open>Properties\<close>

subsection \<open>Strings\<close>

lemma replace_all_removes: "c \<notin> set rep \<Longrightarrow> c \<notin> set (replace_all c rep s)"
  by (induction s) (auto simp: replace_all_def)

lemma replace_all_keeps_out: "c \<notin> set rep \<Longrightarrow> c \<notin> set s \<Longrightarrow> c \<notin> set (replace_all d rep s)"
  by (induction s) (auto simp: replace_all_def)

lemma split_from_nonempty: "split_from sep acc s \<noteq> []"
  by (induction sep acc s rule: split_from.induct) auto

lemma split_from_no_sep: "c \<notin> set b \<Longrightarrow> split_from [c] acc b = [rev acc @ b]"
  by (induction b arbitrary: acc) auto

lemma split_from_append:
  "split_from [c] acc (xs @ c # ys) = split_from [c] acc xs @ split_from [c] [] ys"
  by (induction xs arbitrary: acc) auto

lemma join_Cons: "xs \<noteq> [] \<Longrightarrow> join sep (x # xs) = x @ sep @ join sep xs"
  by (cases xs) auto

lemma join_split_from: "join [c] (split_from [c] acc s) = rev acc @ s"
  by (induction s arbitrary: acc) (auto simp: join_Cons split_from_nonempty)

lemma slice_last_two: "slice_last (xs @ [a, b]) 2 = [a, b]"
  by (simp add: slice_last_def)

lemma length_slice_to_nonneg: "0 \<le> n \<Longrightarrow> length (slice_to xs n) = min (length xs) (nat n)"
  by (simp add: slice_to_def)

lemma length_slice_to_le: "0 \<le> n \<Longrightarrow> length (slice_to xs n) \<le> nat n"
  by (simp add: slice_to_def)

lemma slice_to_nonempty: "1 \<le> n \<Longrightarrow> xs \<noteq> [] \<Longrightarrow> slice_to xs n \<noteq> []"
  by (cases xs) (auto simp: slice_to_def)

lemma replace_all_Nil: "replace_all c rep [] = []"
  by (simp add: replace_all_def)

lemma replace_all_Cons:
  "replace_all c rep (d # s) = (if d = c then rep else [d]) @ replace_all c rep s"
  by (simp add: replace_all_def)

lemma replace_all_append:
  "replace_all c rep (s @ t) = replace_all c rep s @ replace_all c rep t"
  by (simp add: replace_all_def)

lemma strip_leading_Nil: "strip_leading ws [] = []"
  by (subst strip_leading.simps) (auto simp: find_Some_iff split: option.splits)

lemma strip_leading_none:
  "find (\<lambda>w. w \<noteq> [] \<and> prefix w s) ws = None \<Longrightarrow> strip_leading ws s = s"
  by (subst strip_leading.simps) simp

lemma strip_leading_some:
  "find (\<lambda>w. w \<noteq> [] \<and> prefix w s) ws = Some w \<Longrightarrow>
   strip_leading ws s = strip_leading ws (drop (length w) s)"
  by (subst strip_leading.simps) simp

lemma trim_Nil: "trim [] = []"
  by (simp add: trim_def strip_leading_Nil)

text \<open>No encoding of a white space starts another: the one a string starts with is found.\<close>

lemma find_white_space_all:
  "\<forall>w \<in> set white_space. \<forall>rest.
     find (\<lambda>v. v \<noteq> [] \<and> prefix v (w @ rest)) white_space = Some w"
  unfolding white_space_def by simp

lemma find_white_space:
  "w \<in> set white_space \<Longrightarrow> find (\<lambda>v. v \<noteq> [] \<and> prefix v (w @ rest)) white_space = Some w"
  using find_white_space_all by blast

lemma strip_white_space:
  "list_all (\<lambda>w. w \<in> set white_space) parts \<Longrightarrow> strip_leading white_space (concat parts) = []"
proof (induction parts)
  case Nil
  then show ?case by (simp add: strip_leading_Nil)
next
  case (Cons w parts)
  then have "find (\<lambda>v. v \<noteq> [] \<and> prefix v (w @ concat parts)) white_space = Some w"
    by (simp add: find_white_space)
  then have "strip_leading white_space (w @ concat parts)
      = strip_leading white_space (drop (length w) (w @ concat parts))"
    by (rule strip_leading_some)
  with Cons show ?case by simp
qed

lemma trim_white_space:
  "list_all (\<lambda>w. w \<in> set white_space) parts \<Longrightarrow> trim (concat parts) = []"
  by (simp add: trim_def strip_white_space strip_leading_Nil)

text \<open>A string that neither starts nor ends with a white space is left as it is.\<close>

lemma trim_none:
  "find (\<lambda>w. w \<noteq> [] \<and> prefix w s) white_space = None \<Longrightarrow>
   find (\<lambda>w. w \<noteq> [] \<and> prefix w (rev s)) (map rev white_space) = None \<Longrightarrow> trim s = s"
  by (simp add: trim_def strip_leading_none)

lemma trim_nothing_to_report: "trim ''Nothing to report.'' = ''Nothing to report.''"
  by (rule trim_none) (simp_all add: white_space_def)

lemma trim_shipped: "trim ''- Shipped it'' = ''- Shipped it''"
  by (rule trim_none) (simp_all add: white_space_def)

lemma trim_nbsp_shipped: "trim ([CHR 0xC2, CHR 0xA0] @ ''- Shipped it'') = ''- Shipped it''"
proof -
  have "strip_leading white_space ([CHR 0xC2, CHR 0xA0] @ ''- Shipped it'')
      = strip_leading white_space
          (drop (length [CHR 0xC2, CHR 0xA0]) ([CHR 0xC2, CHR 0xA0] @ ''- Shipped it''))"
    by (rule strip_leading_some) (simp add: white_space_def)
  also have "\<dots> = ''- Shipped it''"
    by (simp add: strip_leading_none white_space_def)
  finally show ?thesis
    by (simp add: trim_def strip_leading_none white_space_def)
qed

subsection \<open>renderMarkdownString\<close>

lemma escaped_esc_char: "escaped md = concat (map esc_char md)"
proof (induction md)
  case Nil
  then show ?case by (simp add: escaped_def replace_all_Nil)
next
  case (Cons c md)
  have "escaped (c # md) = escaped [c] @ escaped md"
    unfolding escaped_def by (simp add: replace_all_Cons replace_all_append replace_all_Nil)
  moreover have "escaped [c] = esc_char c"
    unfolding escaped_def esc_char_def by (simp add: replace_all_Cons replace_all_Nil)
  ultimately show ?case using Cons by simp
qed

text \<open>
  C10: for every input \<open>md\<close>, \<open>renderMarkdownString\<close> returns \<open><pre>\<close>, then \<open>md\<close> with
  every \<open>&\<close> replaced by \<open>&amp;\<close>, then every \<open><\<close> by \<open>&lt;\<close>, then every \<open>>\<close> by
  \<open>&gt;\<close>, then \<open></pre>\<close>. A replacement goes through the string from left to right,
  puts the replacement for each occurrence of the character and keeps every other character;
  so the body is the input with each \<open>&\<close>, \<open><\<close> and \<open>>\<close> turned into its entity, once,
  and every other character as it was. The body contains neither \<open><\<close> nor \<open>>\<close>.
\<close>

theorem renderMarkdownString_escapes:
  "renderMarkdownString md =
     ''<pre>''
     @ replace_all CHR ''>'' ''&gt;''
         (replace_all CHR ''<'' ''&lt;'' (replace_all CHR ''&'' ''&amp;'' md))
     @ ''</pre>''
   \<and> escaped md =
       replace_all CHR ''>'' ''&gt;''
         (replace_all CHR ''<'' ''&lt;'' (replace_all CHR ''&'' ''&amp;'' md))
   \<and> CHR ''<'' \<notin> set (escaped md) \<and> CHR ''>'' \<notin> set (escaped md)
   \<and> replace_all c rep [] = []
   \<and> replace_all c rep (d # s) = (if d = c then rep else [d]) @ replace_all c rep s
   \<and> escaped md = concat (map esc_char md)
   \<and> renderMarkdownString md = ''<pre>'' @ concat (map esc_char md) @ ''</pre>''"
proof (intro conjI)
  show "escaped md = concat (map esc_char md)"
    by (rule escaped_esc_char)
  then show "renderMarkdownString md = ''<pre>'' @ concat (map esc_char md) @ ''</pre>''"
    by (simp add: renderMarkdownString_def)
  show "replace_all c rep (d # s) = (if d = c then rep else [d]) @ replace_all c rep s"
    by (rule replace_all_Cons)
qed (simp_all add: renderMarkdownString_def escaped_def replace_all_removes replace_all_keeps_out
       replace_all_Nil)

subsection \<open>withinLastDays\<close>

text \<open>
  C3, as the code has it: \<open>withinLastDays(ts, 14)\<close> is false when \<open>ts\<close> is \<open>null\<close> or
  \<open>undefined\<close>, false when \<open>ts\<close> is the empty string or denotes no date, false when its date
  is strictly older than 14 * 86400000 milliseconds before now, and true otherwise; a timestamp
  of exactly 14 days ago gives true. So it is the window of the specification restricted to
  the strings that denote a date.
\<close>

theorem withinLastDays_14:
  "withinLastDays getTime now None 14 = False
   \<and> withinLastDays getTime now (Some s) 14 =
       (s \<noteq> [] \<and> (\<exists>dt. getTime s = Some dt \<and> \<not> dt < now - 14 * 86400000))
   \<and> withinLastDays getTime now ts 14 =
       (withinLastDays_spec getTime now ts 14
        \<and> (case ts of None \<Rightarrow> True | Some s \<Rightarrow> s \<noteq> [] \<and> getTime s \<noteq> None))
   \<and> withinLastDays (\<lambda>s. Some (now - 14 * 86400000)) now (Some ''t'') 14 = True"
  by (auto simp: withinLastDays_def withinLastDays_spec_def strictly_older_def
        split: option.splits)

text \<open>
  The empty string is neither \<open>null\<close> nor \<open>undefined\<close> and is not older than anything, and
  \<open>withinLastDays\<close> is false for it; so it is for a string that denotes no date.
\<close>

theorem withinLastDays_counterexample:
  "withinLastDays sample_getTime sample_now (Some []) 14 = False
   \<and> withinLastDays_spec sample_getTime sample_now (Some []) 14 = True
   \<and> withinLastDays sample_getTime sample_now (Some ''n/a'') 14 = False
   \<and> withinLastDays_spec sample_getTime sample_now (Some ''n/a'') 14 = True"
  by (simp add: withinLastDays_def withinLastDays_spec_def strictly_older_def sample_getTime_def)

subsection \<open>repoOfPR\<close>

lemma join_last_two_empty:
  assumes "segs \<noteq> []" and "join ''/'' (slice_last segs 2) = []"
  shows "segs = [[]]"
proof (cases "2 \<le> length segs")
  case True
  then obtain zs b where zs: "segs = zs @ [b]"
    by (cases segs rule: rev_cases) auto
  with True obtain ys a where "zs = ys @ [a]"
    by (cases zs rule: rev_cases) auto
  with zs assms(2) show ?thesis by (simp add: slice_last_two)
next
  case False
  with assms(1) obtain a where "segs = [a]"
    by (cases segs) (auto simp: not_le less_Suc_eq_le)
  with assms(2) show ?thesis by (simp add: slice_last_def)
qed

lemma repoOfPR_of_last_two:
  assumes "repository_url p = Some (pre @ owner @ ''/'' @ nm)"
    and "pre = [] \<or> last pre = CHR ''/''"
    and "CHR ''/'' \<notin> set owner" and "CHR ''/'' \<notin> set nm"
  shows "repoOfPR p = owner @ ''/'' @ nm"
proof -
  have "\<exists>segs. split_str ''/'' (pre @ owner @ ''/'' @ nm) = segs @ [owner, nm]"
  proof (cases "pre = []")
    case True
    then have "split_str ''/'' (pre @ owner @ ''/'' @ nm) = [] @ [owner, nm]"
      using assms(3,4) by (simp add: split_str_def split_from_append split_from_no_sep)
    then show ?thesis by blast
  next
    case False
    with assms(2) obtain base where "pre = base @ ''/''"
      by (metis append_butlast_last_id)
    then have "split_str ''/'' (pre @ owner @ ''/'' @ nm)
        = split_from ''/'' [] base @ [owner, nm]"
      using assms(3,4) by (simp add: split_str_def split_from_append split_from_no_sep)
    then show ?thesis by blast
  qed
  then obtain segs where "split_str ''/'' (pre @ owner @ ''/'' @ nm) = segs @ [owner, nm]"
    by blast
  then show ?thesis
    using assms(1) by (simp add: repoOfPR_def slice_last_two)
qed

lemma last_two_segments_exist:
  assumes "CHR ''/'' \<in> set u"
  shows "\<exists>pre owner nm. u = pre @ owner @ ''/'' @ nm \<and> (pre = [] \<or> last pre = CHR ''/'')
           \<and> CHR ''/'' \<notin> set owner \<and> CHR ''/'' \<notin> set nm"
proof -
  from assms obtain a nm where u: "u = a @ CHR ''/'' # nm" and nm: "CHR ''/'' \<notin> set nm"
    by (meson split_list_last)
  show ?thesis
  proof (cases "CHR ''/'' \<in> set a")
    case False
    with u nm have "u = [] @ a @ ''/'' @ nm \<and> CHR ''/'' \<notin> set a \<and> CHR ''/'' \<notin> set nm"
      by simp
    then show ?thesis by blast
  next
    case True
    then obtain b owner where a: "a = b @ CHR ''/'' # owner" and o: "CHR ''/'' \<notin> set owner"
      by (meson split_list_last)
    with u nm have "u = (b @ ''/'') @ owner @ ''/'' @ nm \<and> last (b @ ''/'') = CHR ''/''
        \<and> CHR ''/'' \<notin> set owner \<and> CHR ''/'' \<notin> set nm"
      by simp
    then show ?thesis by blast
  qed
qed

lemma repoOfPR_no_slash:
  "repository_url p = Some u \<Longrightarrow> CHR ''/'' \<notin> set u \<Longrightarrow> repoOfPR p = u"
  by (simp add: repoOfPR_def split_str_def split_from_no_sep slice_last_def)

lemma repoOfPR_empty_iff:
  "repoOfPR p = [] \<longleftrightarrow> repository_url p = None \<or> repository_url p = Some []"
proof (cases "repository_url p")
  case None
  then show ?thesis by (simp add: repoOfPR_def)
next
  case (Some u)
  have "join ''/'' (slice_last (split_str ''/'' u) 2) = [] \<longleftrightarrow> u = []"
  proof
    assume e: "join ''/'' (slice_last (split_str ''/'' u) 2) = []"
    have "split_str ''/'' u = [[]]"
      using join_last_two_empty[OF _ e] by (simp add: split_str_def split_from_nonempty)
    then have "join ''/'' (split_from ''/'' [] u) = []" by (simp add: split_str_def)
    then show "u = []" by (simp add: join_split_from)
  next
    assume "u = []"
    then show "join ''/'' (slice_last (split_str ''/'' u) 2) = []"
      by (simp add: split_str_def slice_last_def)
  qed
  with Some show ?thesis by (simp add: repoOfPR_def Let_def)
qed

text \<open>
  C7, as the code has it: for every pull-request record, \<open>repoOfPR\<close> returns the last two
  slash-separated segments of \<open>repository_url\<close> joined by a slash: \<open>owner/name\<close> when the
  string is \<open>owner/name\<close> or ends in \<open>/owner/name\<close>, which every string with a slash does
  for some \<open>owner\<close> and \<open>name\<close>, and the whole string, its only segment, when it has no
  slash. It returns the empty string exactly when \<open>repository_url\<close> is absent or empty.
\<close>

theorem repoOfPR_last_two_segments:
  "(repository_url p = Some (pre @ owner @ ''/'' @ nm)
      \<and> (pre = [] \<or> last pre = CHR ''/'')
      \<and> CHR ''/'' \<notin> set owner \<and> CHR ''/'' \<notin> set nm
    \<longrightarrow> repoOfPR p = owner @ ''/'' @ nm)
   \<and> (CHR ''/'' \<in> set u
    \<longrightarrow> (\<exists>pre' owner' nm'. u = pre' @ owner' @ ''/'' @ nm'
          \<and> (pre' = [] \<or> last pre' = CHR ''/'')
          \<and> CHR ''/'' \<notin> set owner' \<and> CHR ''/'' \<notin> set nm'))
   \<and> (repository_url p = Some u \<and> CHR ''/'' \<notin> set u \<longrightarrow> repoOfPR p = u)
   \<and> (repoOfPR p = [] \<longleftrightarrow> repository_url p = None \<or> repository_url p = Some [])"
  using repoOfPR_of_last_two[of p pre owner nm] last_two_segments_exist[of u]
    repoOfPR_no_slash[of p u] repoOfPR_empty_iff[of p]
  by blast

theorem repoOfPR_last_two_segments_witness:
  "repoOfPR (sample_pr 42) = ''me/proj''
   \<and> repoOfPR ((sample_pr 42)\<lparr>repository_url := Some ''me/proj''\<rparr>) = ''me/proj''
   \<and> repoOfPR ((sample_pr 42)\<lparr>repository_url := Some ''garbage''\<rparr>) = ''garbage''
   \<and> repoOfPR ((sample_pr 42)\<lparr>repository_url := None\<rparr>) = []"
  using repoOfPR_last_two_segments[of "sample_pr 42" "''https://api.github.com/repos/''" "''me''"
      "''proj''" "''https://api.github.com/repos/me/proj''"]
    repoOfPR_last_two_segments[of "(sample_pr 42)\<lparr>repository_url := Some ''me/proj''\<rparr>" "[]"
      "''me''" "''proj''" "''me/proj''"]
    repoOfPR_last_two_segments[of "(sample_pr 42)\<lparr>repository_url := Some ''garbage''\<rparr>" "[]"
      "[]" "[]" "''garbage''"]
    repoOfPR_last_two_segments[of "(sample_pr 42)\<lparr>repository_url := None\<rparr>" "[]" "[]" "[]" "[]"]
  by (simp add: sample_pr_def)

text \<open>
  A malformed \<open>repository_url\<close> does not give the empty string: a string without a slash
  comes back as it is, and a URL with fewer path segments gives what its last two segments are.
\<close>

theorem repoOfPR_counterexample:
  "repoOfPR ((sample_pr 42)\<lparr>repository_url := Some ''garbage''\<rparr>) = ''garbage''
   \<and> repoOfPR ((sample_pr 42)\<lparr>repository_url := Some ''https://example.com''\<rparr>) = ''/example.com''"
  by (simp add: repoOfPR_def sample_pr_def split_str_def slice_last_def)


subsection \<open>buildHeuristicHighlights\<close>

lemma length_insort_cmp: "length (insort_cmp cmp x ys) = Suc (length ys)"
  by (induction ys) auto

lemma length_sort_cmp: "length (sort_cmp cmp xs) = length xs"
  by (induction xs) (auto simp: length_insort_cmp)

lemma length_mergedPRs:
  "length (mergedPRs getTime now cache)
   = min (length (filter (pr_qualifies getTime now) (prs cache))) 50"
  unfolding mergedPRs_def pr_qualifies_def
  by (simp add: length_slice_to_nonneg length_sort_cmp)

lemma length_recentRepos:
  "length (recentRepos getTime now cache)
   = min (length (filter (repo_qualifies getTime now) (repos cache))) 20"
  unfolding recentRepos_def repo_qualifies_def
  by (simp add: length_slice_to_nonneg length_sort_cmp)

lemma filter_nonempty_length: "x \<in> set xs \<Longrightarrow> P x \<Longrightarrow> 0 < length (filter P xs)"
  by (induction xs) auto

lemma length_push_repos:
  "0 \<le> mh \<Longrightarrow> length out \<le> nat mh \<Longrightarrow>
   length (push_repos mh out rs) = min (nat mh) (length out + length rs)"
  by (induction rs arbitrary: out) auto

lemma length_highlights_of:
  assumes "3 \<le> mh"
  shows "length (highlights_of mh merged recent evs)
       = min (nat mh) (length merged + length recent + release_count evs)"
proof -
  have m: "max 3 mh = mh" "0 \<le> mh" using assms by auto
  have l1: "length (map pr_highlight (slice_to merged mh)) = min (length merged) (nat mh)"
    using m by (simp add: length_slice_to_nonneg)
  have l2: "length (push_repos mh (map pr_highlight (slice_to merged mh)) recent)
      = min (nat mh) (length merged + length recent)"
    using m l1 by (subst length_push_repos) auto
  show ?thesis
    unfolding highlights_of_def Let_def m(1) release_count_def
    using m(2) l2
    by (auto simp: length_slice_to_nonneg split: option.splits)
qed

lemma length_highlights_of_le: "length (highlights_of mh merged recent evs) \<le> nat (max 3 mh)"
  unfolding highlights_of_def Let_def
  by (rule length_slice_to_le) simp

lemma push_repos_nonempty: "out \<noteq> [] \<Longrightarrow> push_repos mh out rs \<noteq> []"
  by (induction rs arbitrary: out) auto

lemma push_repos_nonempty2: "1 \<le> mh \<Longrightarrow> rs \<noteq> [] \<Longrightarrow> push_repos mh out rs \<noteq> []"
  by (cases rs) (auto simp: push_repos_nonempty)

lemma highlights_of_nonempty:
  assumes "1 \<le> mh" and "0 < length merged + length recent + release_count evs"
  shows "highlights_of mh merged recent evs \<noteq> []"
proof -
  let ?out2 = "push_repos mh (map pr_highlight (slice_to merged mh)) recent"
  have "merged \<noteq> [] \<or> recent \<noteq> [] \<or> release_count evs = 1"
    using assms(2) by (auto simp: release_count_def split: option.splits)
  then have "?out2 \<noteq> [] \<or> (?out2 = [] \<and> release_count evs = 1)"
    using assms push_repos_nonempty[of "map pr_highlight (slice_to merged mh)" mh recent]
      push_repos_nonempty2[of mh recent] slice_to_nonempty[of mh merged]
    by auto
  then have "(if int (length ?out2) < max 3 mh
                  then (case find (\<lambda>e. ev_type e = ''ReleaseEvent'') evs of
                          None \<Rightarrow> ?out2
                        | Some rel \<Rightarrow> ?out2 @ [release_highlight rel])
                  else ?out2) \<noteq> []"
    by (auto simp: release_count_def split: option.splits)
  then show ?thesis
    unfolding highlights_of_def Let_def
    by (intro slice_to_nonempty) auto
qed

text \<open>
  C1, as the code has it: for every cache and every integer \<open>maxHighlights\<close> the list has at
  most \<open>max(3, maxHighlights)\<close> bullets. When \<open>maxHighlights\<close> is at least 3 it has exactly
  \<open>min(maxHighlights, available)\<close> bullets, hence at least \<open>min(3, available)\<close>, where
  \<open>available\<close> counts the merged pull requests and the recent repositories the script keeps
  (at most 50 and 20) and one release event when there is one among the events it keeps (the
  first 80). When \<open>maxHighlights\<close> is at least 1 the list is not empty as soon as a merged
  pull request or a repository of the cache qualifies, or a release event is among the events
  kept.
\<close>

theorem buildHeuristicHighlights_length:
  "length (buildHeuristicHighlights getTime now cache maxHighlights) \<le> nat (max 3 maxHighlights)
   \<and> (3 \<le> maxHighlights \<longrightarrow>
        length (buildHeuristicHighlights getTime now cache maxHighlights)
          = min (nat maxHighlights) (available getTime now cache)
        \<and> min 3 (available getTime now cache)
            \<le> length (buildHeuristicHighlights getTime now cache maxHighlights))
   \<and> (1 \<le> maxHighlights
        \<and> ((\<exists>p \<in> set (prs cache). pr_qualifies getTime now p)
            \<or> (\<exists>r \<in> set (repos cache). repo_qualifies getTime now r)
            \<or> (\<exists>e \<in> set (interestingEvents getTime now cache). ev_type e = ''ReleaseEvent''))
      \<longrightarrow> buildHeuristicHighlights getTime now cache maxHighlights \<noteq> [])"
proof (intro conjI impI)
  show "length (buildHeuristicHighlights getTime now cache maxHighlights) \<le> nat (max 3 maxHighlights)"
    by (simp add: buildHeuristicHighlights_def length_highlights_of_le)
next
  assume "3 \<le> maxHighlights"
  then show e: "length (buildHeuristicHighlights getTime now cache maxHighlights)
          = min (nat maxHighlights) (available getTime now cache)"
    by (simp add: buildHeuristicHighlights_def available_def length_highlights_of)
  from \<open>3 \<le> maxHighlights\<close> show "min 3 (available getTime now cache)
            \<le> length (buildHeuristicHighlights getTime now cache maxHighlights)"
    unfolding e by simp
next
  assume a: "1 \<le> maxHighlights
        \<and> ((\<exists>p \<in> set (prs cache). pr_qualifies getTime now p)
            \<or> (\<exists>r \<in> set (repos cache). repo_qualifies getTime now r)
            \<or> (\<exists>e \<in> set (interestingEvents getTime now cache). ev_type e = ''ReleaseEvent''))"
  have "0 < available getTime now cache"
  proof -
    consider (p) "\<exists>p \<in> set (prs cache). pr_qualifies getTime now p"
      | (r) "\<exists>r \<in> set (repos cache). repo_qualifies getTime now r"
      | (e) "\<exists>e \<in> set (interestingEvents getTime now cache). ev_type e = ''ReleaseEvent''"
      using a by blast
    then show ?thesis
    proof cases
      case p
      then have "0 < length (mergedPRs getTime now cache)"
        by (auto simp: length_mergedPRs dest: filter_nonempty_length)
      then show ?thesis by (simp add: available_def)
    next
      case r
      then have "0 < length (recentRepos getTime now cache)"
        by (auto simp: length_recentRepos dest: filter_nonempty_length)
      then show ?thesis by (simp add: available_def)
    next
      case e
      then have "find (\<lambda>e. ev_type e = ''ReleaseEvent'') (interestingEvents getTime now cache) \<noteq> None"
        by (auto simp: find_None_iff)
      then show ?thesis by (auto simp: available_def release_count_def split: option.splits)
    qed
  qed
  with a show "buildHeuristicHighlights getTime now cache maxHighlights \<noteq> []"
    unfolding buildHeuristicHighlights_def available_def
    by (intro highlights_of_nonempty) auto
qed

lemma sample_merged3:
  "mergedPRs sample_getTime sample_now (sample_cache [sample_pr 1, sample_pr 2, sample_pr 3] [])
   = [sample_pr 1, sample_pr 2, sample_pr 3]"
  by (simp add: mergedPRs_def sample_cache_def sample_pr_def truthy_str_def withinLastDays_def
      sample_getTime_def sample_now_def pr_cmp_def pr_time_def num_sub_def not_after_def slice_to_def)

lemma sample_recent3:
  "recentRepos sample_getTime sample_now (sample_cache ps es) = []"
  by (simp add: recentRepos_def sample_cache_def slice_to_def)

lemma sample_interesting3:
  "interestingEvents sample_getTime sample_now (sample_cache ps []) = []"
  by (simp add: interestingEvents_def sample_cache_def slice_to_def)

theorem buildHeuristicHighlights_length_witness:
  "(3::int) \<le> 5
   \<and> pr_qualifies sample_getTime sample_now (sample_pr 1)
   \<and> length (buildHeuristicHighlights sample_getTime sample_now
               (sample_cache [sample_pr 1, sample_pr 2, sample_pr 3] []) 5) = 3
   \<and> buildHeuristicHighlights sample_getTime sample_now
        (sample_cache [sample_pr 1, sample_pr 2, sample_pr 3] []) 5 \<noteq> []"
proof -
  have q: "pr_qualifies sample_getTime sample_now (sample_pr 1)"
    by (simp add: pr_qualifies_def sample_pr_def truthy_str_def withinLastDays_def
        sample_getTime_def sample_now_def)
  have a: "available sample_getTime sample_now
             (sample_cache [sample_pr 1, sample_pr 2, sample_pr 3] []) = 3"
    by (simp add: available_def sample_merged3 sample_recent3 sample_interesting3 release_count_def)
  have m: "sample_pr 1 \<in> set (prs (sample_cache [sample_pr 1, sample_pr 2, sample_pr 3] []))"
    by (simp add: sample_cache_def)
  show ?thesis
    using buildHeuristicHighlights_length[of sample_getTime sample_now
        "sample_cache [sample_pr 1, sample_pr 2, sample_pr 3] []" 5] q a m
    by auto
qed

text \<open>
  With three merged pull requests in the window, \<open>maxHighlights = 2\<close> gives two bullets, fewer
  than \<open>min(3, available) = 3\<close>, and \<open>maxHighlights = 0\<close> gives none.
\<close>

theorem buildHeuristicHighlights_counterexample:
  "available sample_getTime sample_now (sample_cache [sample_pr 1, sample_pr 2, sample_pr 3] []) = 3
   \<and> length (buildHeuristicHighlights sample_getTime sample_now
               (sample_cache [sample_pr 1, sample_pr 2, sample_pr 3] []) 2) = 2
   \<and> buildHeuristicHighlights sample_getTime sample_now
        (sample_cache [sample_pr 1, sample_pr 2, sample_pr 3] []) 0 = []"
  by (simp add: available_def buildHeuristicHighlights_def sample_merged3 sample_recent3
      sample_interesting3 release_count_def highlights_of_def slice_to_def)

subsection \<open>buildHeuristicChangelog\<close>

lemma map_of_bucket_set: "map_of (bucket_set b k v) k' = (if k' = k then Some v else map_of b k')"
  by (induction b) auto

lemma keys_bucket_set:
  "map fst (bucket_set b k v) = (if k \<in> set (map fst b) then map fst b else map fst b @ [k])"
  by (induction b) force+

lemma bucket_get_add:
  "bucket_get (add b k l) k' = bucket_get b k' @ (if k' = k then [l] else [])"
  by (simp add: add_def bucket_get_def map_of_bucket_set)

lemma keys_add: "set (map fst (add b k l)) = insert k (set (map fst b))"
  by (auto simp: add_def keys_bucket_set)

lemma distinct_add: "distinct (map fst b) \<Longrightarrow> distinct (map fst (add b k l))"
  by (auto simp: add_def keys_bucket_set)

lemma fill_snoc: "fill b (items @ [(k, l)]) = add (fill b items) k l"
  by (simp add: fill_def)

lemma fill_props:
  "bucket_get (fill [] items) k = map snd (filter (\<lambda>it. fst it = k) items)
   \<and> set (map fst (fill [] items)) = set (map fst items)
   \<and> distinct (map fst (fill [] items))"
proof (induction items rule: rev_induct)
  case Nil
  then show ?case by (simp add: fill_def bucket_get_def)
next
  case (snoc it items)
  obtain k' l where it: "it = (k', l)" by (cases it)
  show ?case
    unfolding it fill_snoc
    using snoc by (simp add: bucket_get_add keys_add distinct_add del: set_map)
qed

lemma add_event_typed:
  "ev_type e \<in> set interesting_types \<Longrightarrow> add_event b e = add b (event_repo e) (event_line e)"
  by (auto simp: add_event_def event_line_def interesting_types_def Let_def)

lemma foldl_add_pr: "foldl add_pr b ps = fill b (map (\<lambda>p. (repoOfPR p, pr_line p)) ps)"
  by (induction ps arbitrary: b) (auto simp: fill_def add_pr_def)

lemma foldl_add_event:
  "\<forall>e \<in> set es. ev_type e \<in> set interesting_types \<Longrightarrow>
   foldl add_event b es = fill b (map (\<lambda>e. (event_repo e, event_line e)) es)"
  by (induction es arbitrary: b) (auto simp: fill_def add_event_typed)

lemma fill_append: "fill b (xs @ ys) = fill (fill b xs) ys"
  by (simp add: fill_def)

lemma emit_fill:
  assumes "\<forall>e \<in> set es. ev_type e \<in> set interesting_types"
  shows "emit (foldl add_event (foldl add_pr [] ps) es)
       = concat (map (section_of ps es) (section_names ps es))"
proof -
  let ?items = "map (\<lambda>p. (repoOfPR p, pr_line p)) ps @ map (\<lambda>e. (event_repo e, event_line e)) es"
  let ?b = "fill [] ?items"
  have b: "foldl add_event (foldl add_pr [] ps) es = ?b"
    by (simp add: foldl_add_pr foldl_add_event[OF assms] fill_append)
  have keys: "sort (map fst ?b) = section_names ps es"
  proof -
    have "set (map fst ?b) = set (remdups (map repoOfPR ps @ map event_repo es))"
      using fill_props[of ?items] by (auto simp: image_Un image_image)
    moreover have "distinct (map fst ?b)" using fill_props[of ?items] by blast
    ultimately show ?thesis
      unfolding section_names_def
      by (intro sorted_distinct_set_unique) (simp_all del: set_map set_remdups)
  qed
  have get: "bucket_get ?b k = map pr_line (filter (\<lambda>p. repoOfPR p = k) ps)
       @ map event_line (filter (\<lambda>e. event_repo e = k) es)" for k
    using fill_props[of ?items k]
    by (simp add: filter_map comp_def)
  show ?thesis
    unfolding b emit_def keys section_of_def get by simp
qed

lemma section_names_empty: "section_names ps es = [] \<longleftrightarrow> ps = [] \<and> es = []"
proof -
  have "section_names ps es = [] \<longleftrightarrow> set (section_names ps es) = {}" by simp
  also have "\<dots> \<longleftrightarrow> ps = [] \<and> es = []" unfolding section_names_def by auto
  finally show ?thesis .
qed

lemma sections_empty:
  "concat (map (section_of ps es) (section_names ps es)) = [] \<longleftrightarrow> ps = [] \<and> es = []"
proof -
  have "concat (map (section_of ps es) ks) = [] \<longleftrightarrow> ks = []" for ks
    by (cases ks) (auto simp: section_of_def)
  then show ?thesis by (simp add: section_names_empty)
qed

lemma changelog_of_spec:
  assumes "\<forall>e \<in> set es. ev_type e \<in> set interesting_types"
  shows "changelog_of ps es = changelog_spec ps es"
proof (cases "ps = [] \<and> es = []")
  case True
  then have "concat (map (section_of ps es) (section_names ps es)) = []"
    using sections_empty[of ps es] by blast
  with True show ?thesis
    unfolding changelog_of_def changelog_spec_def Let_def emit_fill[OF assms] by simp
next
  case False
  then have "concat (map (section_of ps es) (section_names ps es)) \<noteq> []"
    using sections_empty[of ps es] by blast
  with False show ?thesis
    unfolding changelog_of_def changelog_spec_def Let_def emit_fill[OF assms] by auto
qed

lemma interestingEvents_typed:
  "\<forall>e \<in> set (interestingEvents getTime now cache). ev_type e \<in> set interesting_types"
  unfolding interestingEvents_def slice_to_def
  by (auto dest!: in_set_takeD)

text \<open>
  C2, as the code has it: for every cache, \<open>buildHeuristicChangelog\<close> puts the merged pull
  requests and the events the script keeps (the 50 most recently merged pull requests of the
  window, and the first 80 events of the window that have one of the five types) into buckets
  by repository name: the section headers are the distinct names that own a bullet, sorted; a
  section lists its pull-request bullets and then its event bullets, in the order met; and
  with no bullet the output is the placeholder line.
\<close>

theorem buildHeuristicChangelog_sections:
  "buildHeuristicChangelog getTime now cache
     = changelog_spec (mergedPRs getTime now cache) (interestingEvents getTime now cache)
   \<and> sorted (section_names (mergedPRs getTime now cache) (interestingEvents getTime now cache))
   \<and> distinct (section_names (mergedPRs getTime now cache) (interestingEvents getTime now cache))
   \<and> set (section_names (mergedPRs getTime now cache) (interestingEvents getTime now cache))
       = repoOfPR ` set (mergedPRs getTime now cache)
         \<union> event_repo ` set (interestingEvents getTime now cache)
   \<and> mergedPRs getTime now cache
       = take 50 (sort_cmp (pr_cmp getTime) (filter (pr_qualifies getTime now) (prs cache)))
   \<and> interestingEvents getTime now cache
       = take 80 (filter (\<lambda>e. withinLastDays getTime now (Some (ev_created_at e)) 14
                                \<and> ev_type e \<in> set interesting_types) (events cache))"
proof (intro conjI)
  show "buildHeuristicChangelog getTime now cache
     = changelog_spec (mergedPRs getTime now cache) (interestingEvents getTime now cache)"
    unfolding buildHeuristicChangelog_def
    by (rule changelog_of_spec[OF interestingEvents_typed])
  show "mergedPRs getTime now cache
       = take 50 (sort_cmp (pr_cmp getTime) (filter (pr_qualifies getTime now) (prs cache)))"
    unfolding mergedPRs_def pr_qualifies_def by (simp add: slice_to_def)
  show "interestingEvents getTime now cache
       = take 80 (filter (\<lambda>e. withinLastDays getTime now (Some (ev_created_at e)) 14
                                \<and> ev_type e \<in> set interesting_types) (events cache))"
    unfolding interestingEvents_def by (simp add: slice_to_def conj_commute)
qed (simp_all add: section_names_def)


lemma remdups_replicate_Suc: "remdups (replicate (Suc n) x) = [x]"
  by (induction n) auto

lemma remdups_replicate_pos: "0 < n \<Longrightarrow> remdups (replicate n x) = [x]"
  using remdups_replicate_Suc[of "n - 1" x] by simp

lemma sample_push_window:
  "withinLastDays sample_getTime sample_now (Some (ev_created_at (sample_push nm))) 14"
  by (simp add: sample_push_def withinLastDays_def sample_getTime_def sample_now_def)

lemma sample_push_type: "ev_type (sample_push nm) \<in> set interesting_types"
  by (simp add: sample_push_def interesting_types_def)

lemma sample_interesting81:
  "interestingEvents sample_getTime sample_now
     (sample_cache [] (replicate 80 (sample_push ''a/a'') @ [sample_push ''b/b'']))
   = replicate 80 (sample_push ''a/a'')"
  by (simp add: interestingEvents_def sample_cache_def sample_push_window sample_push_type
      slice_to_def)

lemma sample_merged_none: "mergedPRs getTime now (sample_cache [] es) = []"
  by (simp add: mergedPRs_def sample_cache_def slice_to_def)

text \<open>
  A cache with 81 push events in the window: the 81st, the only one of \<open>b/b\<close>, has a type
  of the list and is in the window, and the changelog has no section for \<open>b/b\<close>. An event
  whose repository name is empty is listed under \<open>desconhecido\<close>.
\<close>

theorem buildHeuristicChangelog_counterexample:
  "withinLastDays sample_getTime sample_now (Some (ev_created_at (sample_push ''b/b''))) 14
   \<and> ev_type (sample_push ''b/b'') \<in> set interesting_types
   \<and> sample_push ''b/b''
       \<in> set (events (sample_cache [] (replicate 80 (sample_push ''a/a'') @ [sample_push ''b/b''])))
   \<and> buildHeuristicChangelog sample_getTime sample_now
        (sample_cache [] (replicate 80 (sample_push ''a/a'') @ [sample_push ''b/b'']))
      = join nl ((''### a/a'') # replicate 80 ''- Push (n commit[s])'' @ [[]])
   \<and> buildHeuristicChangelog sample_getTime sample_now (sample_cache [] [sample_push []])
      = join nl [''### desconhecido'', ''- Push (n commit[s])'', []]"
proof -
  have t: "\<forall>e \<in> set (replicate 80 (sample_push ''a/a'')). ev_type e \<in> set interesting_types"
    by (simp add: sample_push_type)
  have r: "event_repo (sample_push ''a/a'') = ''a/a''"
    by (simp add: event_repo_def sample_push_def)
  have l: "event_line (sample_push ''a/a'') = ''- Push (n commit[s])''"
    by (simp add: event_line_def push_line_def or_n_def sample_push_def)
  have "changelog_spec [] (replicate 80 (sample_push ''a/a''))
      = join nl ((''### a/a'') # replicate 80 ''- Push (n commit[s])'' @ [[]])"
    by (simp add: changelog_spec_def section_names_def section_of_def r l remdups_replicate_pos)
  then have "buildHeuristicChangelog sample_getTime sample_now
        (sample_cache [] (replicate 80 (sample_push ''a/a'') @ [sample_push ''b/b'']))
      = join nl ((''### a/a'') # replicate 80 ''- Push (n commit[s])'' @ [[]])"
    by (simp only: buildHeuristicChangelog_def sample_interesting81 sample_merged_none
        changelog_of_spec[OF t])
  moreover have "sample_push ''b/b''
       \<in> set (events (sample_cache [] (replicate 80 (sample_push ''a/a'') @ [sample_push ''b/b''])))"
    by (simp add: sample_cache_def)
  moreover have "buildHeuristicChangelog sample_getTime sample_now (sample_cache [] [sample_push []])
      = join nl [''### desconhecido'', ''- Push (n commit[s])'', []]"
  proof -
    have i: "interestingEvents sample_getTime sample_now (sample_cache [] [sample_push []])
        = [sample_push []]"
      by (simp add: interestingEvents_def sample_cache_def sample_push_window sample_push_type
          slice_to_def)
    have a: "add_event [] (sample_push []) = [(''desconhecido'', [''- Push (n commit[s])''])]"
      by (simp add: add_event_def event_repo_def sample_push_def add_def bucket_get_def
          push_line_def or_n_def)
    show ?thesis
      by (simp add: buildHeuristicChangelog_def i sample_merged_none changelog_of_def a emit_def
          bucket_get_def)
  qed
  ultimately show ?thesis
    using sample_push_window[of "''b/b''"] sample_push_type[of "''b/b''"] by blast
qed

subsection \<open>aiSummarize\<close>

text \<open>
  C4: for every heuristic draft, if the generative call fails (\<open>fetch\<close> rejects, the status
  is not a success, or the body is empty), \<open>aiSummarize\<close> returns the heuristic highlights
  and the changelog draft unmodified, with the source tag \<open>heuristic\<close>; and it sends at most
  the one request, so nothing is retried.
\<close>

theorem aiSummarize_fallback:
  "(call_fails (fetch (ai_request env weekStr ghUser highlightsDraft changelogDraft)) \<longrightarrow>
      fst (aiSummarize env weekStr ghUser maxHighlights fetch highlightsDraft changelogDraft)
        = \<lparr>source = ''heuristic'', highlights = highlightsDraft, changelog = changelogDraft\<rparr>)
   \<and> snd (aiSummarize env weekStr ghUser maxHighlights fetch highlightsDraft changelogDraft)
       = (if provider_of env = NoProvider then []
          else [ai_request env weekStr ghUser highlightsDraft changelogDraft])"
  by (auto simp: aiSummarize_def call_fails_def heuristic_def Let_def
        split: fetched.splits option.splits jsval.splits)

lemma sample_provider: "provider_of sample_env = OpenAI"
  by (simp add: provider_of_def sample_env_def env_or_def)

theorem aiSummarize_fallback_witness:
  "call_fails Rejected \<and> call_fails sample_failure
   \<and> aiSummarize sample_env ''2025-03'' ''me'' 5 (\<lambda>r. Rejected) [''- a''] ''c''
       = (\<lparr>source = ''heuristic'', highlights = [''- a''], changelog = ''c''\<rparr>,
          [ai_request sample_env ''2025-03'' ''me'' [''- a''] ''c''])
   \<and> aiSummarize sample_env ''2025-03'' ''me'' 5 (\<lambda>r. sample_failure) [''- a''] ''c''
       = (\<lparr>source = ''heuristic'', highlights = [''- a''], changelog = ''c''\<rparr>,
          [ai_request sample_env ''2025-03'' ''me'' [''- a''] ''c''])"
proof -
  have f: "call_fails Rejected" "call_fails sample_failure"
    by (simp_all add: call_fails_def sample_failure_def)
  show ?thesis
    using f aiSummarize_fallback[of "\<lambda>r. Rejected" sample_env "''2025-03''" "''me''" "[''- a'']" "''c''" 5]
      aiSummarize_fallback[of "\<lambda>r. sample_failure" sample_env "''2025-03''" "''me''" "[''- a'']" "''c''" 5]
    by (simp add: sample_provider prod_eq_iff)
qed

lemma split_from_absent:
  "\<not> str_includes s sep \<Longrightarrow> sep \<noteq> [] \<Longrightarrow> split_from sep acc s = [rev acc @ s]"
  by (induction s arbitrary: acc) auto

lemma split_str_absent: "\<not> str_includes s sep \<Longrightarrow> sep \<noteq> [] \<Longrightarrow> split_str sep s = [s]"
  by (simp add: split_str_def split_from_absent)

lemma no_delimiters:
  assumes "\<not> str_includes txt ''===HIGHLIGHTS===''" and "\<not> str_includes txt ''===CHANGELOG===''"
  shows "highs_of txt = filter (prefix ''- '') (map trim (split_str nl txt))"
    and "chgRaw_of txt = []"
  using assms by (simp_all add: highs_of_def chgRaw_of_def split_str_absent)

lemma source_parse_reply: "source (parse_reply mh hdraft cdraft txt) = ''ai''"
  by (simp add: parse_reply_def Let_def)

lemma source_aiSummarize:
  "source (fst (aiSummarize env weekStr ghUser mh fetch hdraft cdraft)) = ''heuristic''
   \<or> source (fst (aiSummarize env weekStr ghUser mh fetch hdraft cdraft)) = ''ai''"
  by (auto simp: aiSummarize_def heuristic_def source_parse_reply Let_def
        split: fetched.splits option.splits jsval.splits)

text \<open>
  C5, as the code has it: the recorded source tag is \<open>heuristic\<close> or \<open>ai\<close> in every run.
  When the provider returns a text without the two delimiters, the lines of the text that
  start with a dash and a space are the highlights, the heuristic highlights are kept when
  there is none, the changelog is the heuristic draft, and the tag is \<open>ai\<close>. Both
  documents carry the tag of the summary in the \<open>source\<close> line of their front matter.
\<close>

theorem aiSummarize_source:
  "source (fst (aiSummarize env weekStr ghUser maxHighlights fetch highlightsDraft changelogDraft))
     \<in> {''heuristic'', ''ai''}
   \<and> (provider_of env \<noteq> NoProvider
        \<and> fetch (ai_request env weekStr ghUser highlightsDraft changelogDraft) = Resolved res
        \<and> res_ok res \<and> res_json res = Some json \<and> reply_text json = Some (JStr reply) \<and> reply \<noteq> []
        \<and> \<not> str_includes reply ''===HIGHLIGHTS==='' \<and> \<not> str_includes reply ''===CHANGELOG===''
      \<longrightarrow> fst (aiSummarize env weekStr ghUser maxHighlights fetch highlightsDraft changelogDraft)
          = \<lparr>source = ''ai'',
             highlights =
               (if filter (prefix ''- '') (map trim (split_str nl reply)) = [] then highlightsDraft
                else slice_to (filter (prefix ''- '') (map trim (split_str nl reply)))
                       (max 3 maxHighlights)),
             changelog = changelogDraft\<rparr>)
   \<and> snd (highlightsMD (summarize_main env getTime now generatedAt weekStr ghUser maxHighlights fetch cache))
       = join nl
           (front weekStr generatedAt
              (source (fst (aiSummarize env weekStr ghUser maxHighlights fetch
                              (buildHeuristicHighlights getTime now cache maxHighlights)
                              (buildHeuristicChangelog getTime now cache))))
              ghUser (''Destaques '' @ emdash @ '' Semana '' @ weekStr)
            # highlights (fst (aiSummarize env weekStr ghUser maxHighlights fetch
                              (buildHeuristicHighlights getTime now cache maxHighlights)
                              (buildHeuristicChangelog getTime now cache))))
   \<and> snd (changelogMD (summarize_main env getTime now generatedAt weekStr ghUser maxHighlights fetch cache))
       = join nl
           [front weekStr generatedAt
              (source (fst (aiSummarize env weekStr ghUser maxHighlights fetch
                              (buildHeuristicHighlights getTime now cache maxHighlights)
                              (buildHeuristicChangelog getTime now cache))))
              ghUser (''Changelog '' @ emdash @ '' Semana '' @ weekStr),
            changelog (fst (aiSummarize env weekStr ghUser maxHighlights fetch
                              (buildHeuristicHighlights getTime now cache maxHighlights)
                              (buildHeuristicChangelog getTime now cache)))]
   \<and> front weekStr generatedAt src ghUser ttl
       = join nl [''---'', ''title: '' @ dq @ ttl @ dq, ''week: '' @ dq @ weekStr @ dq,
                  ''generatedAt: '' @ dq @ generatedAt @ dq, ''source: '' @ dq @ src @ dq,
                  ''author: '' @ dq @ ghUser @ dq, ''---'', []]"
proof (intro conjI impI)
  show "source (fst (aiSummarize env weekStr ghUser maxHighlights fetch highlightsDraft changelogDraft))
     \<in> {''heuristic'', ''ai''}"
    using source_aiSummarize[of env weekStr ghUser maxHighlights fetch highlightsDraft changelogDraft]
    by blast
next
  assume a: "provider_of env \<noteq> NoProvider
        \<and> fetch (ai_request env weekStr ghUser highlightsDraft changelogDraft) = Resolved res
        \<and> res_ok res \<and> res_json res = Some json \<and> reply_text json = Some (JStr reply) \<and> reply \<noteq> []
        \<and> \<not> str_includes reply ''===HIGHLIGHTS==='' \<and> \<not> str_includes reply ''===CHANGELOG===''"
  then have "fst (aiSummarize env weekStr ghUser maxHighlights fetch highlightsDraft changelogDraft)
      = parse_reply maxHighlights highlightsDraft changelogDraft reply"
    by (simp add: aiSummarize_def Let_def)
  also have "\<dots> = \<lparr>source = ''ai'',
             highlights =
               (if filter (prefix ''- '') (map trim (split_str nl reply)) = [] then highlightsDraft
                else slice_to (filter (prefix ''- '') (map trim (split_str nl reply)))
                       (max 3 maxHighlights)),
             changelog = changelogDraft\<rparr>"
    using a by (simp add: parse_reply_def Let_def no_delimiters trim_Nil)
  finally show "fst (aiSummarize env weekStr ghUser maxHighlights fetch highlightsDraft changelogDraft)
          = \<lparr>source = ''ai'',
             highlights =
               (if filter (prefix ''- '') (map trim (split_str nl reply)) = [] then highlightsDraft
                else slice_to (filter (prefix ''- '') (map trim (split_str nl reply)))
                       (max 3 maxHighlights)),
             changelog = changelogDraft\<rparr>" .
qed (simp_all add: summarize_main_def Let_def split_beta front_def)


lemma sample_reply_text: "reply_text (JObj [(''choices'',
     JArr [JObj [(''message'', JObj [(''content'', JStr txt)])]])]) = Some (JStr txt)"
  by (simp add: reply_text_def coalesce_def)

lemma sample_no_bullets:
  "filter (prefix ''- '') (map trim (split_str nl ''Nothing to report.'')) = []"
  "\<not> str_includes ''Nothing to report.'' ''===HIGHLIGHTS===''"
  "\<not> str_includes ''Nothing to report.'' ''===CHANGELOG===''"
  by (simp_all add: split_str_def nl_def trim_nothing_to_report)

lemma sample_nbsp_bullet:
  "filter (prefix ''- '') (map trim (split_str nl ([CHR 0xC2, CHR 0xA0] @ ''- Shipped it'')))
   = [''- Shipped it'']"
  "\<not> str_includes ([CHR 0xC2, CHR 0xA0] @ ''- Shipped it'') ''===HIGHLIGHTS===''"
  "\<not> str_includes ([CHR 0xC2, CHR 0xA0] @ ''- Shipped it'') ''===CHANGELOG===''"
  using trim_nbsp_shipped by (simp_all add: split_str_def nl_def)

theorem aiSummarize_source_witness:
  "provider_of sample_env \<noteq> NoProvider
   \<and> \<not> str_includes ''Nothing to report.'' ''===HIGHLIGHTS===''
   \<and> \<not> str_includes ''Nothing to report.'' ''===CHANGELOG===''
   \<and> fst (aiSummarize sample_env ''2025-03'' ''me'' 5 (\<lambda>r. sample_reply ''Nothing to report.'')
             [''- a''] ''c'')
       = \<lparr>source = ''ai'', highlights = [''- a''], changelog = ''c''\<rparr>
   \<and> fst (aiSummarize sample_env ''2025-03'' ''me'' 5
             (\<lambda>r. sample_reply ([CHR 0xC2, CHR 0xA0] @ ''- Shipped it'')) [''- a''] ''c'')
       = \<lparr>source = ''ai'', highlights = [''- Shipped it''], changelog = ''c''\<rparr>"
proof -
  note t = aiSummarize_source[where env = sample_env and weekStr = "''2025-03''" and ghUser = "''me''"
      and maxHighlights = 5 and fetch = "\<lambda>r. sample_reply ''Nothing to report.''"
      and highlightsDraft = "[''- a'']" and changelogDraft = "''c''"
      and reply = "''Nothing to report.''"
      and json = "JObj [(''choices'',
           JArr [JObj [(''message'', JObj [(''content'', JStr ''Nothing to report.'')])]])]"
      and res = "\<lparr>res_ok = True, res_status = 200, res_headers = [], res_text = [],
               res_json = Some (JObj [(''choices'',
                  JArr [JObj [(''message'', JObj [(''content'', JStr ''Nothing to report.'')])]])])\<rparr>"]
  note u = aiSummarize_source[where env = sample_env and weekStr = "''2025-03''" and ghUser = "''me''"
      and maxHighlights = 5 and fetch = "\<lambda>r. sample_reply ([CHR 0xC2, CHR 0xA0] @ ''- Shipped it'')"
      and highlightsDraft = "[''- a'']" and changelogDraft = "''c''"
      and reply = "[CHR 0xC2, CHR 0xA0] @ ''- Shipped it''"
      and json = "JObj [(''choices'',
           JArr [JObj [(''message'',
             JObj [(''content'', JStr ([CHR 0xC2, CHR 0xA0] @ ''- Shipped it''))])]])]"
      and res = "\<lparr>res_ok = True, res_status = 200, res_headers = [], res_text = [],
               res_json = Some (JObj [(''choices'',
                  JArr [JObj [(''message'',
                    JObj [(''content'', JStr ([CHR 0xC2, CHR 0xA0] @ ''- Shipped it''))])]])])\<rparr>"]
  have a: "fst (aiSummarize sample_env ''2025-03'' ''me'' 5 (\<lambda>r. sample_reply ''Nothing to report.'')
             [''- a''] ''c'')
       = \<lparr>source = ''ai'', highlights = [''- a''], changelog = ''c''\<rparr>"
    using t sample_no_bullets
    by (simp add: sample_provider sample_reply_def sample_reply_text)
  have b: "fst (aiSummarize sample_env ''2025-03'' ''me'' 5
             (\<lambda>r. sample_reply ([CHR 0xC2, CHR 0xA0] @ ''- Shipped it'')) [''- a''] ''c'')
       = \<lparr>source = ''ai'', highlights = [''- Shipped it''], changelog = ''c''\<rparr>"
    using u sample_nbsp_bullet
    by (simp add: sample_provider sample_reply_def sample_reply_text slice_to_def)
  show ?thesis
    using a b sample_no_bullets by (simp add: sample_provider)
qed

text \<open>
  A reply without delimiters and without bullets: the highlights and the changelog are the
  heuristic ones, the changelog part of the reply is empty, and the tag is \<open>ai\<close>, which is
  neither \<open>heuristic\<close> nor \<open>ai-generated\<close>. A reply without delimiters that is a bullet:
  the highlights are that bullet, not the heuristic ones.
\<close>

theorem aiSummarize_source_counterexample:
  "aiSummarize sample_env ''2025-03'' ''me'' 5 (\<lambda>r. sample_reply ''Nothing to report.'')
     [''- a''] ''c''
   = (\<lparr>source = ''ai'', highlights = [''- a''], changelog = ''c''\<rparr>,
      [ai_request sample_env ''2025-03'' ''me'' [''- a''] ''c''])
   \<and> trim (chgRaw_of ''Nothing to report.'') = []
   \<and> ''ai'' \<notin> {''heuristic'', ''ai-generated''}
   \<and> \<not> str_includes ''- Shipped it'' ''===HIGHLIGHTS===''
   \<and> \<not> str_includes ''- Shipped it'' ''===CHANGELOG===''
   \<and> fst (aiSummarize sample_env ''2025-03'' ''me'' 5 (\<lambda>r. sample_reply ''- Shipped it'')
             [''- a''] ''c'')
       = \<lparr>source = ''ai'', highlights = [''- Shipped it''], changelog = ''c''\<rparr>"
proof -
  have c: "chgRaw_of ''Nothing to report.'' = []" "chgRaw_of ''- Shipped it'' = []"
    by (simp_all add: chgRaw_of_def split_str_def)
  have h: "highs_of ''Nothing to report.'' = []" "highs_of ''- Shipped it'' = [''- Shipped it'']"
    by (simp_all add: highs_of_def split_str_def nl_def trim_nothing_to_report trim_shipped)
  show ?thesis
    by (simp add: aiSummarize_def sample_provider sample_reply_def sample_reply_text
        parse_reply_def c h trim_Nil slice_to_def)
qed


subsection \<open>The rate-limit guard of the collector\<close>

lemma ghGet_guard:
  "fetch url = Resolved res \<Longrightarrow> rate_guard toNumber res = Some e \<Longrightarrow> ghGet toNumber fetch url = Inl e"
  by (auto simp: ghGet_def rate_guard_def Let_def split: if_splits option.splits)

lemma ghGet_exhausted: "exhausted toNumber fetch url \<Longrightarrow> \<exists>e. ghGet toNumber fetch url = Inl e"
  by (auto simp: exhausted_def ghGet_guard split: fetched.splits)

lemma ghGet_Inr: "ghGet toNumber fetch url = Inr v \<Longrightarrow> \<not> exhausted toNumber fetch url"
  using ghGet_exhausted[of toNumber fetch url] by auto

lemma ghSearchPRs_Inr:
  "ghSearchPRs toNumber fetch author perPage = Inr v
   \<Longrightarrow> \<not> exhausted toNumber fetch (SearchIssues author (min 100 perPage))"
  by (auto simp: ghSearchPRs_def dest: ghGet_Inr split: sum.splits)

lemma fetch_main_Inr:
  assumes "fetch_main toNumber fetch token USE_GRAPHQL username limit = Inr c"
  shows "\<forall>url \<in> set (rest_calls username limit). \<not> exhausted toNumber fetch url"
proof -
  from assms have
    "\<not> exhausted toNumber fetch (GetUser username)"
    "\<not> exhausted toNumber fetch (GetRepos username (min limit 100))"
    "\<not> exhausted toNumber fetch (GetEvents username (min limit 100))"
    "\<not> exhausted toNumber fetch (SearchIssues username (min 100 limit))"
    by (auto simp: fetch_main_def dest: ghGet_Inr ghSearchPRs_Inr split: if_splits sum.splits prod.splits)
  then show ?thesis by (simp add: rest_calls_def)
qed

lemma map_throwing_Inl: "map_throwing f xs = Inl e \<Longrightarrow> \<exists>x \<in> set xs. f x = Inl e"
  by (induction xs) (auto split: sum.splits)

lemma pinned_of_Inl: "pinned_of n = Inl e \<Longrightarrow> e = TypeError"
  by (auto simp: pinned_of_def split: if_splits)

lemma pickRepo_Inl: "pickRepo n = Inl e \<Longrightarrow> e = TypeError"
  by (auto simp: pickRepo_def split: if_splits)

lemma pickEvent_Inl: "pickEvent n = Inl e \<Longrightarrow> e = TypeError"
  by (auto simp: pickEvent_def split: if_splits)

lemma pickPR_Inl: "pickPR n = Inl e \<Longrightarrow> e = TypeError"
  by (auto simp: pickPR_def split: if_splits)

lemma slice_map_Inl:
  "slice_map f limit json = Inl e \<Longrightarrow> (\<And>x e. f x = Inl e \<Longrightarrow> e = TypeError) \<Longrightarrow> e = TypeError"
  by (auto simp: slice_map_def split: jsval.splits dest!: map_throwing_Inl)

lemma fetchPinnedGraphQL_Inl:
  "fetchPinnedGraphQL useGraphQL fetch author = Inl e \<Longrightarrow> e \<in> {FetchFailed, SyntaxError, TypeError}"
  by (auto simp: fetchPinnedGraphQL_def Let_def
      split: if_splits fetched.splits option.splits sum.splits jsval.splits
      dest!: map_throwing_Inl pinned_of_Inl)

lemma fetchPinnedGraphQL_headers:
  "fetchPinnedGraphQL useGraphQL
     (\<lambda>r. case fetch r of Rejected \<Rightarrow> Rejected | Resolved res \<Rightarrow> Resolved (res\<lparr>res_headers := hs\<rparr>))
     author
   = fetchPinnedGraphQL useGraphQL fetch author"
  by (simp add: fetchPinnedGraphQL_def split: fetched.splits)

lemma ghGet_Inl_RateLimit:
  "ghGet toNumber fetch url = Inl (RateLimit l r t)
   \<Longrightarrow> \<exists>res. fetch url = Resolved res \<and> rate_guard toNumber res = Some (RateLimit l r t)"
  by (auto simp: ghGet_def rate_guard_def Let_def split: fetched.splits if_splits option.splits)

lemma ghSearchPRs_Inl_RateLimit:
  "ghSearchPRs toNumber fetch author perPage = Inl (RateLimit l r t)
   \<Longrightarrow> \<exists>res. fetch (SearchIssues author (min 100 perPage)) = Resolved res
            \<and> rate_guard toNumber res = Some (RateLimit l r t)"
  by (auto simp: ghSearchPRs_def Let_def split: sum.splits prod.splits if_splits option.splits
      dest: ghGet_Inl_RateLimit slice_map_Inl[OF _ pickPR_Inl])

lemma fetch_main_Inl_RateLimit:
  assumes "fetch_main toNumber fetch token USE_GRAPHQL username limit = Inl (RateLimit l r t)"
  shows "\<exists>url \<in> set (rest_calls username limit). \<exists>res.
           fetch url = Resolved res \<and> rate_guard toNumber res = Some (RateLimit l r t)"
  using assms unfolding fetch_main_def rest_calls_def
  by (auto split: if_splits sum.splits prod.splits
      dest: ghGet_Inl_RateLimit ghSearchPRs_Inl_RateLimit slice_map_Inl[OF _ pickRepo_Inl]
        slice_map_Inl[OF _ pickEvent_Inl] fetchPinnedGraphQL_Inl)

lemma sample_Number_values:
  "sample_Number ''0'' = Some 0" "sample_Number ''60'' = Some 60" "sample_Number ''59'' = Some 59"
  "sample_Number ''58'' = Some 58" "sample_Number ''57'' = Some 57" "sample_Number ''56'' = Some 56"
  "sample_Number ''1736899200'' = Some 1736899200"
  by (simp_all add: sample_Number_def)

lemma sample_run:
  "fetch_main sample_Number sample_github ''tok'' (Some ''1'') ''me'' 60 = Inr sample_collected"
  by (simp add: fetch_main_def ghGet_def sample_response_def header_or0_def sample_Number_values
      le0_def slice_map_def slice_to_def ghSearchPRs_def fetchPinnedGraphQL_def Let_def
      sample_collected_def)

lemma sample_graphql_guard:
  "rate_guard sample_Number
     \<lparr>res_ok = True, res_status = 200,
      res_headers = [(''x-ratelimit-limit'', ''60''), (''x-ratelimit-remaining'', ''0''),
                     (''x-ratelimit-reset'', ''1736899200'')],
      res_text = [], res_json = Some json\<rparr>
   = Some (RateLimit (Some 60) (Some 0) 1736899200000)"
  by (simp add: rate_guard_def header_or0_def sample_Number_values le0_def reset_time_def)

text \<open>
  C6, as the code has it: every call that goes through \<open>ghGet\<close> (the user, the repositories,
  the events and the pull-request search) checks the remaining-calls counter of its response
  first, and when the counter is zero or less it raises the rate-limit error with the reset
  time of the response (a \<open>RangeError\<close> when the reset header gives no valid time), whatever
  the status and the body are. A run that completes had no exhausted REST call, and a run that
  ends in a rate-limit error got it from the guard of one of them. The GraphQL call of the
  pinned items has no guard: it never raises the rate-limit error and does not read the headers.
\<close>

theorem rate_limit_guard:
  "(fetch url = Resolved res \<and> le0 (toNumber (header_or0 res ''x-ratelimit-remaining'')) \<longrightarrow>
      ghGet toNumber fetch url
        = Inl (case reset_time (toNumber (header_or0 res ''x-ratelimit-reset'')) of
                 None \<Rightarrow> RangeError
               | Some t \<Rightarrow> RateLimit (toNumber (header_or0 res ''x-ratelimit-limit''))
                            (toNumber (header_or0 res ''x-ratelimit-remaining'')) t))
   \<and> (fetch_main toNumber fetch token USE_GRAPHQL username limit = Inr c \<longrightarrow>
        (\<forall>u \<in> set (rest_calls username limit). \<not> exhausted toNumber fetch u))
   \<and> (fetch_main toNumber fetch token USE_GRAPHQL username limit = Inl (RateLimit l r t) \<longrightarrow>
        (\<exists>u \<in> set (rest_calls username limit). \<exists>res'.
           fetch u = Resolved res' \<and> rate_guard toNumber res' = Some (RateLimit l r t)))
   \<and> fetchPinnedGraphQL useGraphQL fetch author \<noteq> Inl (RateLimit l r t)
   \<and> fetchPinnedGraphQL useGraphQL
        (\<lambda>q. case fetch q of Rejected \<Rightarrow> Rejected | Resolved x \<Rightarrow> Resolved (x\<lparr>res_headers := hs\<rparr>))
        author
      = fetchPinnedGraphQL useGraphQL fetch author"
proof (intro conjI impI)
  assume "fetch url = Resolved res \<and> le0 (toNumber (header_or0 res ''x-ratelimit-remaining''))"
  then show "ghGet toNumber fetch url
        = Inl (case reset_time (toNumber (header_or0 res ''x-ratelimit-reset'')) of
                 None \<Rightarrow> RangeError
               | Some t \<Rightarrow> RateLimit (toNumber (header_or0 res ''x-ratelimit-limit''))
                            (toNumber (header_or0 res ''x-ratelimit-remaining'')) t)"
    using ghGet_guard[of fetch url res toNumber] by (auto simp: rate_guard_def)
next
  assume "fetch_main toNumber fetch token USE_GRAPHQL username limit = Inr c"
  then show "\<forall>u \<in> set (rest_calls username limit). \<not> exhausted toNumber fetch u"
    by (rule fetch_main_Inr)
next
  assume "fetch_main toNumber fetch token USE_GRAPHQL username limit = Inl (RateLimit l r t)"
  then show "\<exists>u \<in> set (rest_calls username limit). \<exists>res'.
           fetch u = Resolved res' \<and> rate_guard toNumber res' = Some (RateLimit l r t)"
    by (rule fetch_main_Inl_RateLimit)
next
  show "fetchPinnedGraphQL useGraphQL fetch author \<noteq> Inl (RateLimit l r t)"
    using fetchPinnedGraphQL_Inl[of useGraphQL fetch author "RateLimit l r t"] by auto
next
  show "fetchPinnedGraphQL useGraphQL
        (\<lambda>q. case fetch q of Rejected \<Rightarrow> Rejected | Resolved x \<Rightarrow> Resolved (x\<lparr>res_headers := hs\<rparr>))
        author
      = fetchPinnedGraphQL useGraphQL fetch author"
    by (rule fetchPinnedGraphQL_headers)
qed

lemma sample_exhausted_run:
  "fetch_main sample_Number sample_exhausted ''tok'' (Some ''1'') ''me'' 60
   = Inl (RateLimit (Some 60) (Some 0) 1736899200000)"
  by (simp add: fetch_main_def ghGet_def sample_response_def header_or0_def sample_Number_values
      le0_def slice_map_def slice_to_def reset_time_def Let_def)

theorem rate_limit_guard_witness:
  "ghGet sample_Number sample_exhausted (GetEvents ''me'' 60)
     = Inl (RateLimit (Some 60) (Some 0) 1736899200000)
   \<and> fetch_main sample_Number sample_github ''tok'' (Some ''1'') ''me'' 60 = Inr sample_collected
   \<and> \<not> exhausted sample_Number sample_github (GetEvents ''me'' 60)
   \<and> fetch_main sample_Number sample_exhausted ''tok'' (Some ''1'') ''me'' 60
       = Inl (RateLimit (Some 60) (Some 0) 1736899200000)
   \<and> exhausted sample_Number sample_exhausted (GetEvents ''me'' 60)"
proof -
  let ?res = "\<lparr>res_ok = True, res_status = 200,
      res_headers = [(''x-ratelimit-limit'', ''60''), (''x-ratelimit-remaining'', ''0''),
                     (''x-ratelimit-reset'', ''1736899200'')],
      res_text = [], res_json = Some (JArr [])\<rparr>"
  have f: "sample_exhausted (GetEvents ''me'' 60) = Resolved ?res"
    by (simp add: sample_response_def)
  have g: "le0 (sample_Number (header_or0 ?res ''x-ratelimit-remaining''))"
    by (simp add: header_or0_def sample_Number_values le0_def)
  note t1 = rate_limit_guard[of sample_exhausted "GetEvents ''me'' 60" ?res sample_Number
      "''tok''" "Some ''1''" "''me''" 60 sample_collected "Some 60" "Some 0" 1736899200000 False "''me''" "[]"]
  note t2 = rate_limit_guard[of sample_github "GetEvents ''me'' 60" ?res sample_Number
      "''tok''" "Some ''1''" "''me''" 60 sample_collected "Some 60" "Some 0" 1736899200000 False "''me''" "[]"]
  have a: "ghGet sample_Number sample_exhausted (GetEvents ''me'' 60)
     = Inl (RateLimit (Some 60) (Some 0) 1736899200000)"
    using t1 f g by (simp add: header_or0_def sample_Number_values reset_time_def)
  have b: "\<not> exhausted sample_Number sample_github (GetEvents ''me'' 60)"
    using t2 sample_run by (simp add: rest_calls_def)
  have c: "exhausted sample_Number sample_exhausted (GetEvents ''me'' 60)"
    using t1 sample_exhausted_run
    by (auto simp: rest_calls_def exhausted_def sample_response_def rate_guard_def
        header_or0_def sample_Number_values le0_def)
  show ?thesis using a b c sample_run sample_exhausted_run by simp
qed

text \<open>
  A run with the GraphQL query enabled, whose GraphQL reply reports 0 remaining calls in its
  header and in its body: the run completes.
\<close>

theorem rate_limit_guard_counterexample:
  "sample_github (PostGraphQL ''me'')
     = Resolved \<lparr>res_ok = True, res_status = 200,
        res_headers = [(''x-ratelimit-limit'', ''60''), (''x-ratelimit-remaining'', ''0''),
                       (''x-ratelimit-reset'', ''1736899200'')],
        res_text = [],
        res_json = Some (JObj [(''data'', JObj [(''user'', JObj [(''pinnedItems'', JObj [(''nodes'', JArr [])])]),
                               (''rateLimit'', JObj [(''limit'', JNum 5000), (''remaining'', JNum 0),
                                                     (''resetAt'', JStr ''2025-01-15T00:00:00Z'')])])])\<rparr>
   \<and> le0 (sample_Number ''0'')
   \<and> fetchPinnedGraphQL True sample_github ''me''
       = Inr ([], Some (JObj [(''limit'', JNum 5000), (''remaining'', JNum 0),
                              (''resetAt'', JStr ''2025-01-15T00:00:00Z'')]))
   \<and> fetch_main sample_Number sample_github ''tok'' (Some ''1'') ''me'' 60 = Inr sample_collected"
  by (simp add: sample_run sample_response_def sample_Number_values le0_def
      fetchPinnedGraphQL_def Let_def)


subsection \<open>The recency comparators\<close>

lemma orders_first_neg:
  "cmp a b = Some v \<Longrightarrow> v < 0 \<Longrightarrow> cmp b a = Some w \<Longrightarrow> 0 < w \<Longrightarrow> a \<noteq> b \<Longrightarrow> orders_first cmp a b"
  by (simp add: orders_first_def not_after_def)

lemma orders_first_iff:
  "not_after (cmp a b) \<Longrightarrow> \<not> not_after (cmp b a) \<Longrightarrow> orders_first cmp a b"
  by (auto simp: orders_first_def)

text \<open>
  C8, as the code has it: the comparators of the recent repositories and of the merged pull
  requests order the record with the later timestamp first. The comparator of the projects
  orders a featured project before one that is not, whatever their timestamps; of two projects
  that are both featured or both not, it orders the one with the later timestamp first, and
  with equal timestamps it returns the comparison of their names, so the names ascend.
\<close>

theorem recency_comparators:
  "(repo_time getTime a = Some ta \<and> repo_time getTime b = Some tb \<and> tb < ta
      \<longrightarrow> orders_first (repo_cmp getTime) a b)
   \<and> (pr_time getTime p = Some tp \<and> pr_time getTime p' = Some tp' \<and> tp' < tp
      \<longrightarrow> orders_first (pr_cmp getTime) p p')
   \<and> (featured_rank x = featured_rank y
        \<and> updated_time Date_parse x = Some tx \<and> updated_time Date_parse y = Some ty \<and> ty < tx
      \<longrightarrow> orders_first (project_cmp Date_parse localeCompare) x y)
   \<and> (featured_rank x = featured_rank y
        \<and> updated_time Date_parse x = Some tx \<and> updated_time Date_parse y = Some tx
      \<longrightarrow> project_cmp Date_parse localeCompare x y = Some (localeCompare (proj_name x) (proj_name y))
          \<and> (localeCompare (proj_name x) (proj_name y) < 0
               \<and> 0 < localeCompare (proj_name y) (proj_name x)
              \<longrightarrow> orders_first (project_cmp Date_parse localeCompare) x y))
   \<and> (featured_rank y < featured_rank x
      \<longrightarrow> orders_first (project_cmp Date_parse localeCompare) x y)"
  by (auto intro!: orders_first_iff
      simp: repo_cmp_def pr_cmp_def project_cmp_def num_sub_def not_after_def Let_def)

lemma sample_times:
  "updated_time sample_getTime (sample_project nm f ''2024-06-01T00:00:00Z'') = Some 1717200000000"
  "updated_time sample_getTime (sample_project nm f ''2025-01-13T00:00:00Z'') = Some 1736726400000"
  by (simp_all add: updated_time_def sample_project_def sample_getTime_def)

theorem recency_comparators_witness:
  "orders_first (project_cmp sample_getTime sample_localeCompare)
     (sample_project ''new'' False ''2025-01-13T00:00:00Z'')
     (sample_project ''old'' False ''2024-06-01T00:00:00Z'')
   \<and> orders_first (project_cmp sample_getTime sample_localeCompare)
     (sample_project ''a'' False ''2025-01-13T00:00:00Z'')
     (sample_project ''b'' False ''2025-01-13T00:00:00Z'')
   \<and> orders_first (project_cmp sample_getTime sample_localeCompare)
     (sample_project ''old'' True ''2024-06-01T00:00:00Z'')
     (sample_project ''new'' False ''2025-01-13T00:00:00Z'')
   \<and> orders_first (pr_cmp sample_getTime)
     (sample_pr 1) ((sample_pr 2)\<lparr>merged_at := Some ''2025-01-10T00:00:00Z''\<rparr>)
   \<and> orders_first (repo_cmp sample_getTime)
     (sample_repo ''me/new'' ''2025-01-13T00:00:00Z'') (sample_repo ''me/old'' ''2025-01-10T00:00:00Z'')"
proof -
  have r: "featured_rank (sample_project nm True upd) = 1"
    "featured_rank (sample_project nm False upd) = 0" for nm upd
    by (simp_all add: featured_rank_def sample_project_def)
  have n: "proj_name (sample_project nm f upd) = nm" for nm f upd
    by (simp add: sample_project_def)
  have l: "sample_localeCompare ''a'' ''b'' < 0" "0 < sample_localeCompare ''b'' ''a''"
    by (simp_all add: sample_localeCompare_def)
  have tp: "pr_time sample_getTime (sample_pr 1) = Some 1736726400000"
    "pr_time sample_getTime ((sample_pr 2)\<lparr>merged_at := Some ''2025-01-10T00:00:00Z''\<rparr>)
       = Some 1736467200000"
    by (simp_all add: pr_time_def sample_pr_def sample_getTime_def)
  have tr: "repo_time sample_getTime (sample_repo ''me/new'' ''2025-01-13T00:00:00Z'') = Some 1736726400000"
    "repo_time sample_getTime (sample_repo ''me/old'' ''2025-01-10T00:00:00Z'') = Some 1736467200000"
    by (simp_all add: repo_time_def sample_repo_def sample_getTime_def or_str_def truthy_str_def)
  note t1 = recency_comparators[where getTime = sample_getTime and Date_parse = sample_getTime
      and localeCompare = sample_localeCompare
      and a = "sample_repo ''me/new'' ''2025-01-13T00:00:00Z''" and ta = 1736726400000
      and b = "sample_repo ''me/old'' ''2025-01-10T00:00:00Z''" and tb = 1736467200000
      and p = "sample_pr 1" and tp = 1736726400000
      and p' = "(sample_pr 2)\<lparr>merged_at := Some ''2025-01-10T00:00:00Z''\<rparr>" and tp' = 1736467200000
      and x = "sample_project ''new'' False ''2025-01-13T00:00:00Z''" and tx = 1736726400000
      and y = "sample_project ''old'' False ''2024-06-01T00:00:00Z''" and ty = 1717200000000]
  note t2 = recency_comparators[where getTime = sample_getTime and Date_parse = sample_getTime
      and localeCompare = sample_localeCompare
      and x = "sample_project ''a'' False ''2025-01-13T00:00:00Z''" and tx = 1736726400000
      and y = "sample_project ''b'' False ''2025-01-13T00:00:00Z''"]
  note t3 = recency_comparators[where getTime = sample_getTime and Date_parse = sample_getTime
      and localeCompare = sample_localeCompare
      and x = "sample_project ''old'' True ''2024-06-01T00:00:00Z''"
      and y = "sample_project ''new'' False ''2025-01-13T00:00:00Z''"]
  show ?thesis
    using t1 t2 t3 by (simp add: r n l tp tr sample_times)
qed


text \<open>
  A featured project last updated in June 2024 and a project that is not featured, updated in
  January 2025: the older one is ordered first.
\<close>

theorem recency_comparators_counterexample:
  "updated_time sample_getTime (sample_project ''old'' True ''2024-06-01T00:00:00Z'') = Some 1717200000000
   \<and> updated_time sample_getTime (sample_project ''new'' False ''2025-01-13T00:00:00Z'') = Some 1736726400000
   \<and> project_cmp sample_getTime sample_localeCompare
        (sample_project ''new'' False ''2025-01-13T00:00:00Z'')
        (sample_project ''old'' True ''2024-06-01T00:00:00Z'') = Some 1
   \<and> PROJECTS sample_getTime sample_localeCompare
        [sample_project ''new'' False ''2025-01-13T00:00:00Z'',
         sample_project ''old'' True ''2024-06-01T00:00:00Z'']
      = [sample_project ''old'' True ''2024-06-01T00:00:00Z'',
         sample_project ''new'' False ''2025-01-13T00:00:00Z'']"
  by (simp add: sample_times PROJECTS_def project_cmp_def featured_rank_def not_after_def)
    (simp add: sample_project_def toLowerCase_def lower_char_def)

subsection \<open>filterProjects\<close>

text \<open>
  C9: with a query that is absent, empty or made of white space only (any white space
  characters and line terminators of the language), and a tag list that is absent or empty,
  \<open>filterProjects\<close> returns the list it was given; and for every options its result is a
  subsequence of the list: nothing is added, nothing is reordered.
\<close>

theorem filterProjects_identity:
  "((q opts = None
       \<or> (q opts = Some (concat parts) \<and> list_all (\<lambda>w. w \<in> set white_space) parts))
      \<and> (opt_tags opts = None \<or> opt_tags opts = Some [])
     \<longrightarrow> filterProjects projects opts = projects)
   \<and> subseq (filterProjects projects opts) projects"
proof (intro conjI impI)
  assume a: "(q opts = None
       \<or> (q opts = Some (concat parts) \<and> list_all (\<lambda>w. w \<in> set white_space) parts))
      \<and> (opt_tags opts = None \<or> opt_tags opts = Some [])"
  then have "toLowerCase (trim (case q opts of None \<Rightarrow> [] | Some s \<Rightarrow> s)) = []"
    by (auto simp: toLowerCase_def trim_white_space trim_Nil)
  moreover from a have "map toLowerCase (case opt_tags opts of None \<Rightarrow> [] | Some ts \<Rightarrow> ts) = []"
    by auto
  ultimately show "filterProjects projects opts = projects"
    by (simp add: filterProjects_def)
next
  show "subseq (filterProjects projects opts) projects"
    by (simp add: filterProjects_def Let_def)
qed

theorem filterProjects_identity_witness:
  "list_all (\<lambda>w. w \<in> set white_space) ['' '', [CHR 0xC2, CHR 0xA0], [CHR 0x09]]
   \<and> filterProjects [sample_project ''b'' False ''2025-01-13T00:00:00Z'',
                      sample_project ''a'' True ''2024-06-01T00:00:00Z'']
        \<lparr>q = Some ('' '' @ [CHR 0xC2, CHR 0xA0, CHR 0x09]), opt_tags = Some []\<rparr>
      = [sample_project ''b'' False ''2025-01-13T00:00:00Z'',
         sample_project ''a'' True ''2024-06-01T00:00:00Z'']
   \<and> filterProjects [sample_project ''b'' False ''2025-01-13T00:00:00Z'',
                      sample_project ''a'' True ''2024-06-01T00:00:00Z'']
        \<lparr>q = Some [], opt_tags = None\<rparr>
      = [sample_project ''b'' False ''2025-01-13T00:00:00Z'',
         sample_project ''a'' True ''2024-06-01T00:00:00Z'']
   \<and> filterProjects [sample_project ''b'' False ''2025-01-13T00:00:00Z'',
                      sample_project ''a'' True ''2024-06-01T00:00:00Z'']
        \<lparr>q = None, opt_tags = None\<rparr>
      = [sample_project ''b'' False ''2025-01-13T00:00:00Z'',
         sample_project ''a'' True ''2024-06-01T00:00:00Z'']"
proof -
  have w: "list_all (\<lambda>w. w \<in> set white_space) ['' '', [CHR 0xC2, CHR 0xA0], [CHR 0x09]]"
    by (simp add: white_space_def)
  show ?thesis
    using w
      filterProjects_identity[of "\<lparr>q = Some ('' '' @ [CHR 0xC2, CHR 0xA0, CHR 0x09]), opt_tags = Some []\<rparr>"
        "['' '', [CHR 0xC2, CHR 0xA0], [CHR 0x09]]"
        "[sample_project ''b'' False ''2025-01-13T00:00:00Z'',
          sample_project ''a'' True ''2024-06-01T00:00:00Z'']"]
      filterProjects_identity[of "\<lparr>q = Some [], opt_tags = None\<rparr>" "[]"
        "[sample_project ''b'' False ''2025-01-13T00:00:00Z'',
          sample_project ''a'' True ''2024-06-01T00:00:00Z'']"]
      filterProjects_identity[of "\<lparr>q = None, opt_tags = None\<rparr>" "[]"
        "[sample_project ''b'' False ''2025-01-13T00:00:00Z'',
          sample_project ''a'' True ''2024-06-01T00:00:00Z'']"]
    by simp
qed

end
